theory Spec2Isabelle
  imports Main "HOL-Library.Char_ord" "HOL-Library.List_Lexorder"
begin

section \<open>Errors raised by the ledger engine\<close>

text \<open>
  Every \<^verbatim>\<open>throw new Error(...)\<close> of the instruction engine, the block applier and
  the genesis bootstrap is a value of this type, named after the message it carries.
  \<open>SyntaxError\<close> and \<open>TypeError\<close> are the two run-time errors the JavaScript
  built-ins raise on the paths modelled here (\<^verbatim>\<open>BigInt(s)\<close> on a string that is not an
  integer literal, a method call on \<^verbatim>\<open>null\<close>); \<open>StorageError\<close> is a failure of the
  backing key-value store.
\<close>

datatype error =
    DomainAlreadyExists string
  | AccountAlreadyExists string
  | InvalidAccountFormat string
  | DomainDoesNotExist string
  | AssetAlreadyExists string
  | InvalidAssetFormat string
  | InvalidPrecision
  | AssetDoesNotExist string
  | AccountDoesNotExist string
  | SourceAccountDoesNotExist string
  | DestinationAccountDoesNotExist string
  | NoBalance string string
  | InsufficientBalance int int
  | RoleDoesNotExist string
  | InvalidAmountFormat string
  | ExceedsPrecision string int
  | SyntaxError
  | TypeError
  | StorageError
  | GenesisError string

section \<open>Strings and arbitrary-precision integers\<close>

definition is_digit :: "char \<Rightarrow> bool" where
  "is_digit c = (c \<in> set ''0123456789'')"

definition digit_value :: "char \<Rightarrow> int" where
  "digit_value c = int (of_char c) - 48"

text \<open>The value of a string of decimal digits, most significant digit first.\<close>

definition dec_value :: "string \<Rightarrow> int" where
  "dec_value s = foldl (\<lambda>n c. 10 * n + digit_value c) 0 s"

text \<open>
  A string is the list of its code units; the strings of this model have code units below
  256. The white space and line terminators among them are the tabulations, line feed,
  form feed, carriage return, space and no-break space.
\<close>

definition is_white_space :: "char \<Rightarrow> bool" where
  "is_white_space c =
     (c \<in> set [CHR 0x09, CHR 0x0A, CHR 0x0B, CHR 0x0C, CHR 0x0D, CHR 0x20, CHR 0xA0])"

definition trim :: "string \<Rightarrow> string" where
  "trim s = rev (dropWhile is_white_space (rev (dropWhile is_white_space s)))"

text \<open>A non-empty string of decimal digits, read as a number.\<close>

definition decimal_digits :: "string \<Rightarrow> error + int" where
  "decimal_digits s =
     (if s \<noteq> [] \<and> list_all is_digit s then Inr (dec_value s) else Inl SyntaxError)"

text \<open>A non-empty string of digits below a radix of 2, 8 or 16, read as a number.\<close>

definition radix_digit :: "char \<Rightarrow> nat option" where
  "radix_digit c =
     map_of [(CHR ''0'', 0), (CHR ''1'', 1), (CHR ''2'', 2), (CHR ''3'', 3), (CHR ''4'', 4),
             (CHR ''5'', 5), (CHR ''6'', 6), (CHR ''7'', 7), (CHR ''8'', 8), (CHR ''9'', 9),
             (CHR ''a'', 10), (CHR ''b'', 11), (CHR ''c'', 12), (CHR ''d'', 13),
             (CHR ''e'', 14), (CHR ''f'', 15),
             (CHR ''A'', 10), (CHR ''B'', 11), (CHR ''C'', 12), (CHR ''D'', 13),
             (CHR ''E'', 14), (CHR ''F'', 15)] c"

definition radix_digits :: "nat \<Rightarrow> string \<Rightarrow> error + int" where
  "radix_digits radix s =
     (if s \<noteq> [] \<and>
         list_all (\<lambda>c. case radix_digit c of None \<Rightarrow> False | Some v \<Rightarrow> v < radix) s
      then Inr (foldl (\<lambda>n c. int radix * n +
                         int (case radix_digit c of None \<Rightarrow> 0 | Some v \<Rightarrow> v)) 0 s)
      else Inl SyntaxError)"

text \<open>
  \<^verbatim>\<open>BigInt(s)\<close> on a string (\<^verbatim>\<open>StringToBigInt\<close>): white space is trimmed at both ends;
  what is left is nothing, which is 0, or decimal digits with an optional sign, or binary,
  octal or hexadecimal digits after \<^verbatim>\<open>0b\<close>, \<^verbatim>\<open>0o\<close> or \<^verbatim>\<open>0x\<close> with no sign. Anything
  else, a decimal point among it, is a \<^verbatim>\<open>SyntaxError\<close>.
\<close>

definition BigInt :: "string \<Rightarrow> error + int" where
  "BigInt s =
     (case trim s of
        [] \<Rightarrow> Inr 0
      | c # rest \<Rightarrow>
          if c = CHR ''+'' then decimal_digits rest
          else if c = CHR ''-''
          then (case decimal_digits rest of Inl e \<Rightarrow> Inl e | Inr n \<Rightarrow> Inr (- n))
          else if c = CHR ''0''
          then (case rest of
                  [] \<Rightarrow> decimal_digits (c # rest)
                | x # ds \<Rightarrow>
                    if x = CHR ''x'' \<or> x = CHR ''X'' then radix_digits 16 ds
                    else if x = CHR ''o'' \<or> x = CHR ''O'' then radix_digits 8 ds
                    else if x = CHR ''b'' \<or> x = CHR ''B'' then radix_digits 2 ds
                    else decimal_digits (c # rest))
          else decimal_digits (c # rest))"

text \<open>\<^verbatim>\<open>s.split(sep)\<close> for a one-character separator: always at least one part.\<close>

fun split_str :: "char \<Rightarrow> string \<Rightarrow> string list" where
  "split_str sep [] = [[]]"
| "split_str sep (c # cs) =
     (if c = sep then [] # split_str sep cs
      else (case split_str sep cs of
              [] \<Rightarrow> [[c]]
            | p # ps \<Rightarrow> (c # p) # ps))"

text \<open>\<^verbatim>\<open>s.padEnd(n, c)\<close>: nothing is added when \<open>s\<close> already has \<open>n\<close> characters
  or \<open>n\<close> is negative.\<close>

definition padEnd :: "string \<Rightarrow> int \<Rightarrow> char \<Rightarrow> string" where
  "padEnd s n c = s @ replicate (nat n - length s) c"

text \<open>The test \<^verbatim>\<open>/^\d+(\.\d+)?$/.test(amount)\<close>: one or more digits, then optionally a
  point followed by one or more digits, and nothing else.\<close>

definition amount_pattern :: "string \<Rightarrow> bool" where
  "amount_pattern s =
     (takeWhile is_digit s \<noteq> [] \<and>
      (case dropWhile is_digit s of
         [] \<Rightarrow> True
       | c # f \<Rightarrow> c = CHR ''.'' \<and> f \<noteq> [] \<and> list_all is_digit f))"

section \<open>Amount conversion\<close>

text \<open>
  \<^verbatim>\<open>InstructionEngine.validateAmount(amount, precision)\<close>: \<^verbatim>\<open>parts[0]\<close> is the whole
  part, \<^verbatim>\<open>parts[1] || ''\<close> the fractional part.
\<close>

definition validateAmount :: "string \<Rightarrow> int \<Rightarrow> error + int" where
  "validateAmount amount precision =
     (if \<not> amount_pattern amount then Inl (InvalidAmountFormat amount)
      else
        let parts = split_str CHR ''.'' amount;
            wholePart = (case parts of [] \<Rightarrow> [] | w # _ \<Rightarrow> w);
            fractionalPart = (case parts of _ # f # _ \<Rightarrow> f | _ \<Rightarrow> [])
        in if int (length fractionalPart) > precision
           then Inl (ExceedsPrecision amount precision)
           else BigInt (wholePart @ padEnd fractionalPart precision CHR ''0''))"

text \<open>
  The conversion in the specification's words: the integer part is the digits before the
  point, the fractional tail the digits after it (empty when there is no point).
\<close>

definition integer_part :: "string \<Rightarrow> string" where
  "integer_part s = takeWhile (\<lambda>c. c \<noteq> CHR ''.'') s"

definition fractional_tail :: "string \<Rightarrow> string" where
  "fractional_tail s = drop 1 (dropWhile (\<lambda>c. c \<noteq> CHR ''.'') s)"

definition smallest_unit :: "string \<Rightarrow> nat \<Rightarrow> int" where
  "smallest_unit s p =
     dec_value (integer_part s @ fractional_tail s @
                replicate (p - length (fractional_tail s)) CHR ''0'')"


text \<open>\<^verbatim>\<open>n.toString()\<close> of a bigint: decimal, no leading zeros, a minus sign when negative.\<close>

definition digit_char :: "nat \<Rightarrow> char" where
  "digit_char d = ''0123456789'' ! d"

fun nat_digits :: "nat \<Rightarrow> string" where
  "nat_digits n =
     (if n < 10 then [digit_char n] else nat_digits (n div 10) @ [digit_char (n mod 10)])"

declare nat_digits.simps [simp del]

definition toString :: "int \<Rightarrow> string" where
  "toString i = (if i < 0 then CHR ''-'' # nat_digits (nat (- i)) else nat_digits (nat i))"

section \<open>Data model\<close>

record domain =
  domain_id :: string
  domain_created_at :: int

record account =
  acct_id :: string
  public_key :: string
  acct_roles :: "string list"
  acct_created_at :: int

record asset =
  asst_id :: string
  precision :: int
  asst_created_at :: int

text \<open>The amount of a balance is kept as a string, as the source has it.\<close>

record balance =
  asset_id :: string
  account_id :: string
  amount :: string

record role =
  role_id :: string
  permissions :: "string list"

record validator =
  validator_id :: string
  validator_public_key :: string

datatype instruction =
    RegisterDomain string
  | RegisterAccount string string
  | RegisterAsset string int
  | MintAsset string string string
  | BurnAsset string string string
  | TransferAsset string string string string
  | GrantRole string string
  | RevokeRole string string

text \<open>
  The arguments are in the order of the interfaces' fields: \<open>RegisterAccount id public_key\<close>,
  \<open>RegisterAsset id precision\<close>, \<open>MintAsset asset_id account_id amount\<close> (\<open>BurnAsset\<close>
  alike), \<open>TransferAsset asset_id src_account dest_account amount\<close>,
  \<open>GrantRole role_id account_id\<close> (\<open>RevokeRole\<close> alike).
\<close>

record signature =
  sig_public_key :: string
  sig_value :: string

record transaction_body =
  chain_id :: string
  signer_id :: string
  nonce :: int
  created_at :: int
  instructions :: "instruction list"

record transaction =
  body :: transaction_body
  tx_signature :: signature

record block_header =
  height :: int
  prev_hash :: string
  timestamp :: int

record block =
  header :: block_header
  transactions :: "transaction list"
  proposer_id :: string
  block_signature :: signature

section \<open>The state store\<close>

text \<open>
  The store maps string keys to JSON values. Every key starts with the name of its
  table (\<^verbatim>\<open>domains/\<close>, \<^verbatim>\<open>accounts/\<close>, \<^verbatim>\<open>account_roles/\<close>, \<^verbatim>\<open>assets/\<close>, \<^verbatim>\<open>balances/\<close>,
  \<^verbatim>\<open>roles/\<close>, \<^verbatim>\<open>validators/\<close>, \<^verbatim>\<open>blocks/\<close>, \<^verbatim>\<open>blocks_by_hash/\<close>, \<^verbatim>\<open>txs/\<close>) or is one of
  the two global keys, and no table name is a prefix of another one followed by a slash,
  so the store is one map per table, keyed by the rest of the key. A balance's key is
  \<^verbatim>\<open>balances/${asset_id}/${account_id}\<close>: the rest of the key is the two identifiers
  joined by a slash, kept as one string here.
\<close>

record store =
  domains :: "string \<rightharpoonup> domain"
  accounts :: "string \<rightharpoonup> account"
  account_roles :: "string \<rightharpoonup> string list"
  assets :: "string \<rightharpoonup> asset"
  balances :: "string \<rightharpoonup> balance"
  roles :: "string \<rightharpoonup> role"
  validators :: "string \<rightharpoonup> validator"
  blocks :: "int \<rightharpoonup> block"
  blocks_by_hash :: "string \<rightharpoonup> int"
  txs :: "string \<rightharpoonup> transaction"
  stored_chain_id :: "string option"
  last_height :: "int option"

definition empty_store :: store where
  "empty_store = \<lparr>domains = Map.empty, accounts = Map.empty, account_roles = Map.empty,
     assets = Map.empty, balances = Map.empty, roles = Map.empty, validators = Map.empty,
     blocks = Map.empty, blocks_by_hash = Map.empty, txs = Map.empty,
     stored_chain_id = None, last_height = None\<rparr>"

definition balance_key :: "string \<Rightarrow> string \<Rightarrow> string" where
  "balance_key asset account = asset @ ''/'' @ account"

definition getBalance :: "store \<Rightarrow> string \<Rightarrow> string \<Rightarrow> balance option" where
  "getBalance s asset account = balances s (balance_key asset account)"

definition putBalance :: "balance \<Rightarrow> store \<Rightarrow> store" where
  "putBalance b s =
     s\<lparr>balances := (balances s)(balance_key (asset_id b) (account_id b) \<mapsto> b)\<rparr>"

definition delBalance :: "string \<Rightarrow> string \<Rightarrow> store \<Rightarrow> store" where
  "delBalance asset account s =
     s\<lparr>balances := (balances s)(balance_key asset account := None)\<rparr>"

definition putDomain :: "domain \<Rightarrow> store \<Rightarrow> store" where
  "putDomain d s = s\<lparr>domains := (domains s)(domain_id d \<mapsto> d)\<rparr>"

definition putAccount :: "account \<Rightarrow> store \<Rightarrow> store" where
  "putAccount a s = s\<lparr>accounts := (accounts s)(acct_id a \<mapsto> a)\<rparr>"

definition putAccountRoles :: "string \<Rightarrow> string list \<Rightarrow> store \<Rightarrow> store" where
  "putAccountRoles account rs s = s\<lparr>account_roles := (account_roles s)(account \<mapsto> rs)\<rparr>"

definition putAsset :: "asset \<Rightarrow> store \<Rightarrow> store" where
  "putAsset a s = s\<lparr>assets := (assets s)(asst_id a \<mapsto> a)\<rparr>"

text \<open>
  One operation of a write batch, \<^verbatim>\<open>{type, key, value}\<close>, and its effect.
\<close>

datatype operation =
    PutDomainOp domain
  | PutAccountOp account
  | PutAccountRolesOp string "string list"
  | PutAssetOp asset
  | PutBalanceOp balance
  | PutRoleOp role
  | PutValidatorOp validator
  | PutChainIdOp string
  | PutBlockOp block
  | PutBlockByHashOp string int
  | PutTxOp string transaction
  | PutLastHeightOp int

fun apply_operation :: "store \<Rightarrow> operation \<Rightarrow> store" where
  "apply_operation s (PutDomainOp d) = putDomain d s"
| "apply_operation s (PutAccountOp a) = putAccount a s"
| "apply_operation s (PutAccountRolesOp a rs) = putAccountRoles a rs s"
| "apply_operation s (PutAssetOp a) = putAsset a s"
| "apply_operation s (PutBalanceOp b) = putBalance b s"
| "apply_operation s (PutRoleOp r) = s\<lparr>roles := (roles s)(role_id r \<mapsto> r)\<rparr>"
| "apply_operation s (PutValidatorOp v) = s\<lparr>validators := (validators s)(validator_id v \<mapsto> v)\<rparr>"
| "apply_operation s (PutChainIdOp c) = s\<lparr>stored_chain_id := Some c\<rparr>"
| "apply_operation s (PutBlockOp b) = s\<lparr>blocks := (blocks s)(height (header b) \<mapsto> b)\<rparr>"
| "apply_operation s (PutBlockByHashOp h n) = s\<lparr>blocks_by_hash := (blocks_by_hash s)(h \<mapsto> n)\<rparr>"
| "apply_operation s (PutTxOp h t) = s\<lparr>txs := (txs s)(h \<mapsto> t)\<rparr>"
| "apply_operation s (PutLastHeightOp n) = s\<lparr>last_height := Some n\<rparr>"

text \<open>
  \<^verbatim>\<open>LevelDBStateStore.batch(operations)\<close>. The backing store writes a batch whole or not
  at all; \<open>commits\<close> says which, and is the only failure of the store modelled.
\<close>

definition batch :: "bool \<Rightarrow> operation list \<Rightarrow> store \<Rightarrow> (error + unit) \<times> store" where
  "batch commits operations s =
     (if commits then (Inr (), foldl apply_operation s operations)
      else (Inl StorageError, s))"

section \<open>The instruction engine\<close>

text \<open>
  A handler reads and writes the store directly (\<^verbatim>\<open>stateStore.get\<close>, \<^verbatim>\<open>put\<close>, \<^verbatim>\<open>del\<close>)
  and either returns or throws. Its outcome is the error thrown, if any, together with
  the store as the handler left it: a write made before a throw stays made.
  \<^verbatim>\<open>Date.now()\<close> is the argument \<open>now\<close>.
\<close>

type_synonym outcome = "(error + unit) \<times> store"

text \<open>\<^verbatim>\<open>const [name, domain] = id.split(sep)\<close>: a missing part is \<^verbatim>\<open>undefined\<close>, which the
  handlers only test for falsity, as they would the empty string.\<close>

definition part :: "string list \<Rightarrow> nat \<Rightarrow> string" where
  "part parts i = (if i < length parts then parts ! i else [])"

definition handleRegisterDomain :: "int \<Rightarrow> string \<Rightarrow> store \<Rightarrow> outcome" where
  "handleRegisterDomain now ident s =
     (case domains s ident of
        Some _ \<Rightarrow> (Inl (DomainAlreadyExists ident), s)
      | None \<Rightarrow> (Inr (), putDomain \<lparr>domain_id = ident, domain_created_at = now\<rparr> s))"

definition handleRegisterAccount :: "int \<Rightarrow> string \<Rightarrow> string \<Rightarrow> store \<Rightarrow> outcome" where
  "handleRegisterAccount now ident pk s =
     (case accounts s ident of
        Some _ \<Rightarrow> (Inl (AccountAlreadyExists ident), s)
      | None \<Rightarrow>
          let parts = split_str CHR ''@'' ident; name = part parts 0; dom = part parts 1
          in if name = [] \<or> dom = [] then (Inl (InvalidAccountFormat ident), s)
             else (case domains s dom of
                     None \<Rightarrow> (Inl (DomainDoesNotExist dom), s)
                   | Some _ \<Rightarrow>
                       (Inr (),
                        putAccountRoles ident []
                          (putAccount \<lparr>acct_id = ident, public_key = pk, acct_roles = [],
                                       acct_created_at = now\<rparr> s))))"

definition handleRegisterAsset :: "int \<Rightarrow> string \<Rightarrow> int \<Rightarrow> store \<Rightarrow> outcome" where
  "handleRegisterAsset now ident prec s =
     (case assets s ident of
        Some _ \<Rightarrow> (Inl (AssetAlreadyExists ident), s)
      | None \<Rightarrow>
          let parts = split_str CHR ''#'' ident; assetId = part parts 0; dom = part parts 1
          in if assetId = [] \<or> dom = [] then (Inl (InvalidAssetFormat ident), s)
             else (case domains s dom of
                     None \<Rightarrow> (Inl (DomainDoesNotExist dom), s)
                   | Some _ \<Rightarrow>
                       if prec < 0 \<or> prec > 18 then (Inl InvalidPrecision, s)
                       else (Inr (),
                             putAsset \<lparr>asst_id = ident, precision = prec,
                                       asst_created_at = now\<rparr> s)))"

text \<open>\<^verbatim>\<open>currentBalance ? BigInt(currentBalance.amount) : BigInt(0)\<close>\<close>

definition amount_or_zero :: "balance option \<Rightarrow> error + int" where
  "amount_or_zero b = (case b of None \<Rightarrow> Inr 0 | Some x \<Rightarrow> BigInt (amount x))"

definition handleMintAsset :: "string \<Rightarrow> string \<Rightarrow> string \<Rightarrow> store \<Rightarrow> outcome" where
  "handleMintAsset asset acct amt s =
     (case assets s asset of
        None \<Rightarrow> (Inl (AssetDoesNotExist asset), s)
      | Some a \<Rightarrow>
     (case accounts s acct of
        None \<Rightarrow> (Inl (AccountDoesNotExist acct), s)
      | Some _ \<Rightarrow>
     (case validateAmount amt (precision a) of
        Inl e \<Rightarrow> (Inl e, s)
      | Inr n \<Rightarrow>
     (case amount_or_zero (getBalance s asset acct) of
        Inl e \<Rightarrow> (Inl e, s)
      | Inr currentAmount \<Rightarrow>
          (Inr (),
           putBalance \<lparr>asset_id = asset, account_id = acct,
                       amount = toString (currentAmount + n)\<rparr> s)))))"

definition handleBurnAsset :: "string \<Rightarrow> string \<Rightarrow> string \<Rightarrow> store \<Rightarrow> outcome" where
  "handleBurnAsset asset acct amt s =
     (case assets s asset of
        None \<Rightarrow> (Inl (AssetDoesNotExist asset), s)
      | Some a \<Rightarrow>
     (case accounts s acct of
        None \<Rightarrow> (Inl (AccountDoesNotExist acct), s)
      | Some _ \<Rightarrow>
     (case validateAmount amt (precision a) of
        Inl e \<Rightarrow> (Inl e, s)
      | Inr n \<Rightarrow>
     (case getBalance s asset acct of
        None \<Rightarrow> (Inl (NoBalance acct asset), s)
      | Some currentBalance \<Rightarrow>
     (case BigInt (amount currentBalance) of
        Inl e \<Rightarrow> (Inl e, s)
      | Inr currentAmount \<Rightarrow>
          if currentAmount < n then (Inl (InsufficientBalance currentAmount n), s)
          else let newAmount = currentAmount - n
               in if newAmount = 0 then (Inr (), delBalance asset acct s)
                  else (Inr (),
                        putBalance \<lparr>asset_id = asset, account_id = acct,
                                    amount = toString newAmount\<rparr> s))))))"

text \<open>
  The destination balance is read after the source balance has been written, and
  \<^verbatim>\<open>BigInt(destBalance.amount)\<close> can still throw then.
\<close>

definition handleTransferAsset ::
  "string \<Rightarrow> string \<Rightarrow> string \<Rightarrow> string \<Rightarrow> store \<Rightarrow> outcome" where
  "handleTransferAsset asset src dest amt s =
     (case assets s asset of
        None \<Rightarrow> (Inl (AssetDoesNotExist asset), s)
      | Some a \<Rightarrow>
     (case accounts s src of
        None \<Rightarrow> (Inl (SourceAccountDoesNotExist src), s)
      | Some _ \<Rightarrow>
     (case accounts s dest of
        None \<Rightarrow> (Inl (DestinationAccountDoesNotExist dest), s)
      | Some _ \<Rightarrow>
     (case validateAmount amt (precision a) of
        Inl e \<Rightarrow> (Inl e, s)
      | Inr n \<Rightarrow>
     (case getBalance s asset src of
        None \<Rightarrow> (Inl (NoBalance src asset), s)
      | Some srcBalance \<Rightarrow>
     (case BigInt (amount srcBalance) of
        Inl e \<Rightarrow> (Inl e, s)
      | Inr srcAmount \<Rightarrow>
          if srcAmount < n then (Inl (InsufficientBalance srcAmount n), s)
          else
            let newSrcAmount = srcAmount - n;
                s1 = (if newSrcAmount = 0 then delBalance asset src s
                      else putBalance \<lparr>asset_id = asset, account_id = src,
                                       amount = toString newSrcAmount\<rparr> s)
            in (case amount_or_zero (getBalance s1 asset dest) of
                  Inl e \<Rightarrow> (Inl e, s1)
                | Inr destAmount \<Rightarrow>
                    (Inr (),
                     putBalance \<lparr>asset_id = asset, account_id = dest,
                                 amount = toString (destAmount + n)\<rparr> s1))))))))"

text \<open>
  \<^verbatim>\<open>getAccountRoles\<close> returns \<^verbatim>\<open>this.get(key) || []\<close>, where \<^verbatim>\<open>this.get(key)\<close> is a promise
  and so never falsy: for an account with no \<^verbatim>\<open>account_roles/\<close> key the caller receives
  \<^verbatim>\<open>null\<close>, and \<^verbatim>\<open>currentRoles.includes\<close> is a \<^verbatim>\<open>TypeError\<close>.
\<close>

definition handleGrantRole :: "string \<Rightarrow> string \<Rightarrow> store \<Rightarrow> outcome" where
  "handleGrantRole r acct s =
     (case roles s r of
        None \<Rightarrow> (Inl (RoleDoesNotExist r), s)
      | Some _ \<Rightarrow>
     (case accounts s acct of
        None \<Rightarrow> (Inl (AccountDoesNotExist acct), s)
      | Some _ \<Rightarrow>
     (case account_roles s acct of
        None \<Rightarrow> (Inl TypeError, s)
      | Some currentRoles \<Rightarrow>
          if r \<notin> set currentRoles then (Inr (), putAccountRoles acct (currentRoles @ [r]) s)
          else (Inr (), s))))"

definition handleRevokeRole :: "string \<Rightarrow> string \<Rightarrow> store \<Rightarrow> outcome" where
  "handleRevokeRole r acct s =
     (case accounts s acct of
        None \<Rightarrow> (Inl (AccountDoesNotExist acct), s)
      | Some _ \<Rightarrow>
     (case account_roles s acct of
        None \<Rightarrow> (Inl TypeError, s)
      | Some currentRoles \<Rightarrow>
          if r \<in> set currentRoles
          then (Inr (), putAccountRoles acct (filter (\<lambda>x. x \<noteq> r) currentRoles) s)
          else (Inr (), s)))"

text \<open>\<^verbatim>\<open>InstructionEngine.execute(instruction, signerId)\<close>. The type of instructions has
  the eight variants only, so the \<^verbatim>\<open>default\<close> branch is not reached. No handler uses
  the signer.\<close>

fun execute :: "int \<Rightarrow> instruction \<Rightarrow> string \<Rightarrow> store \<Rightarrow> outcome" where
  "execute now (RegisterDomain ident) signerId s = handleRegisterDomain now ident s"
| "execute now (RegisterAccount ident pk) signerId s = handleRegisterAccount now ident pk s"
| "execute now (RegisterAsset ident prec) signerId s = handleRegisterAsset now ident prec s"
| "execute now (MintAsset asset acct amt) signerId s = handleMintAsset asset acct amt s"
| "execute now (BurnAsset asset acct amt) signerId s = handleBurnAsset asset acct amt s"
| "execute now (TransferAsset asset src dest amt) signerId s =
     handleTransferAsset asset src dest amt s"
| "execute now (GrantRole r acct) signerId s = handleGrantRole r acct s"
| "execute now (RevokeRole r acct) signerId s = handleRevokeRole r acct s"

section \<open>Applying a block\<close>

text \<open>The inner loop of \<^verbatim>\<open>applyBlock\<close>: the instructions of one transaction, in order.
  An error thrown by \<^verbatim>\<open>execute\<close> is not caught.\<close>

fun execute_instructions :: "int \<Rightarrow> string \<Rightarrow> instruction list \<Rightarrow> store \<Rightarrow> outcome" where
  "execute_instructions now signerId [] s = (Inr (), s)"
| "execute_instructions now signerId (i # rest) s =
     (case execute now i signerId s of
        (Inl e, s') \<Rightarrow> (Inl e, s')
      | (Inr _, s') \<Rightarrow> execute_instructions now signerId rest s')"

text \<open>The outer loop: each transaction's record is pushed on the operations, then its
  instructions run against the store.\<close>

fun process_transactions ::
  "(transaction \<Rightarrow> string) \<Rightarrow> int \<Rightarrow> transaction list \<Rightarrow> operation list \<Rightarrow> store \<Rightarrow>
   (error + operation list) \<times> store" where
  "process_transactions txHash now [] operations s = (Inr operations, s)"
| "process_transactions txHash now (tx # rest) operations s =
     (let operations' = operations @ [PutTxOp (txHash tx) tx]
      in case execute_instructions now (signer_id (body tx)) (instructions (body tx)) s of
           (Inl e, s') \<Rightarrow> (Inl e, s')
         | (Inr _, s') \<Rightarrow> process_transactions txHash now rest operations' s')"

text \<open>What the outer loop does to the store, apart from the operations it collects.\<close>

fun run_transactions :: "int \<Rightarrow> transaction list \<Rightarrow> store \<Rightarrow> outcome" where
  "run_transactions now [] s = (Inr (), s)"
| "run_transactions now (tx # rest) s =
     (case execute_instructions now (signer_id (body tx)) (instructions (body tx)) s of
        (Inl e, s') \<Rightarrow> (Inl e, s')
      | (Inr _, s') \<Rightarrow> run_transactions now rest s')"

text \<open>
  \<^verbatim>\<open>BlockProducer.applyBlock(block)\<close>. \<open>blockHash\<close> is \<^verbatim>\<open>calculateBlockHash\<close> (the hash of
  the canonical header) and \<open>txHash\<close> is \<^verbatim>\<open>calculateTransactionHash\<close>; \<open>commits\<close> says
  whether the store writes the batch. The transactions are removed from the mempool
  after the batch; the mempool is not part of the store.
\<close>

definition applyBlock ::
  "(block_header \<Rightarrow> string) \<Rightarrow> (transaction \<Rightarrow> string) \<Rightarrow> bool \<Rightarrow> int \<Rightarrow> block \<Rightarrow> store \<Rightarrow>
   outcome" where
  "applyBlock blockHash txHash commits now b s =
     (let operations = [PutBlockOp b, PutBlockByHashOp (blockHash (header b)) (height (header b))]
      in case process_transactions txHash now (transactions b) operations s of
           (Inl e, s') \<Rightarrow> (Inl e, s')
         | (Inr ops, s') \<Rightarrow> batch commits (ops @ [PutLastHeightOp (height (header b))]) s')"

section \<open>Balances as numbers\<close>

text \<open>
  The number a stored balance record stands for, and the balance of an account: an
  absent key counts as zero. A record whose amount \<^verbatim>\<open>BigInt\<close> rejects stands for no
  number and counts as zero as well; every handler that reads such a record fails.
\<close>

definition balance_value :: "balance \<Rightarrow> int" where
  "balance_value b = (case BigInt (amount b) of Inl _ \<Rightarrow> 0 | Inr n \<Rightarrow> n)"

definition balance_of :: "store \<Rightarrow> string \<Rightarrow> string \<Rightarrow> int" where
  "balance_of s asset acct =
     (case getBalance s asset acct of None \<Rightarrow> 0 | Some b \<Rightarrow> balance_value b)"

text \<open>The accounts that have a balance key for an asset, and the sum of their balances.\<close>

definition holders :: "store \<Rightarrow> string \<Rightarrow> string set" where
  "holders s asset = {acct. getBalance s asset acct \<noteq> None}"

definition total_supply :: "store \<Rightarrow> string \<Rightarrow> int" where
  "total_supply s asset = (\<Sum>acct \<in> holders s asset. balance_of s asset acct)"

section \<open>A ledger to run the engine on\<close>

text \<open>
  The state of the specification's end-to-end scenarios: domain \<^verbatim>\<open>root\<close>, the accounts
  \<^verbatim>\<open>alice@root\<close> and \<^verbatim>\<open>bob@root\<close> with 100000 and 50000 cents of the asset \<^verbatim>\<open>usd#root\<close>
  of precision 2, and an account \<^verbatim>\<open>carol@root\<close> that holds nothing.
\<close>

definition alice_usd :: balance where
  "alice_usd = \<lparr>asset_id = ''usd#root'', account_id = ''alice@root'', amount = ''100000''\<rparr>"

definition bob_usd :: balance where
  "bob_usd = \<lparr>asset_id = ''usd#root'', account_id = ''bob@root'', amount = ''50000''\<rparr>"

definition scenario_store :: store where
  "scenario_store = empty_store
     \<lparr>domains := [''root'' \<mapsto> \<lparr>domain_id = ''root'', domain_created_at = 1\<rparr>],
      accounts := [''alice@root'' \<mapsto> \<lparr>acct_id = ''alice@root'', public_key = ''ed25519:A'',
                                      acct_roles = [''user''], acct_created_at = 1\<rparr>,
                   ''bob@root'' \<mapsto> \<lparr>acct_id = ''bob@root'', public_key = ''ed25519:B'',
                                    acct_roles = [''user''], acct_created_at = 1\<rparr>,
                   ''carol@root'' \<mapsto> \<lparr>acct_id = ''carol@root'', public_key = ''ed25519:C'',
                                      acct_roles = [''user''], acct_created_at = 1\<rparr>],
      assets := [''usd#root'' \<mapsto> \<lparr>asst_id = ''usd#root'', precision = 2, asst_created_at = 1\<rparr>],
      balances := [''usd#root/alice@root'' \<mapsto> alice_usd, ''usd#root/bob@root'' \<mapsto> bob_usd],
      last_height := Some 1\<rparr>"

text \<open>The same ledger with Alice's balance as \<^verbatim>\<open>createSampleGenesisConfig\<close> writes it, an
  amount with a decimal point, which the genesis validation accepts.\<close>

definition sample_genesis_store :: store where
  "sample_genesis_store =
     scenario_store
       \<lparr>balances := [''usd#root/alice@root'' \<mapsto> alice_usd\<lparr>amount := ''1000.00''\<rparr>,
                     ''usd#root/bob@root'' \<mapsto> bob_usd]\<rparr>"

text \<open>
  A ledger built by instructions from the empty store: the domains \<^verbatim>\<open>r\<close> and \<^verbatim>\<open>r/x\<close>, the
  accounts \<^verbatim>\<open>y@r\<close>, \<^verbatim>\<open>x/y@r\<close> and \<^verbatim>\<open>z@r\<close>, the assets \<^verbatim>\<open>usd#r\<close> and \<^verbatim>\<open>usd#r/x\<close> of
  precision 0, and 5 units of \<^verbatim>\<open>usd#r/x\<close> minted to \<^verbatim>\<open>y@r\<close>.
\<close>

definition slash_setup :: "instruction list" where
  "slash_setup =
     [RegisterDomain ''r'', RegisterDomain ''r/x'',
      RegisterAccount ''y@r'' ''ed25519:Y'', RegisterAccount ''x/y@r'' ''ed25519:X'',
      RegisterAccount ''z@r'' ''ed25519:Z'',
      RegisterAsset ''usd#r'' 0, RegisterAsset ''usd#r/x'' 0,
      MintAsset ''usd#r/x'' ''y@r'' ''5'']"

definition slash_store :: store where
  "slash_store = snd (execute_instructions 1 ''admin@r'' slash_setup empty_store)"

section \<open>Block application as the specification words it\<close>

text \<open>
  The specification's block applier, to compare \<open>applyBlock\<close> with: each transaction runs
  against the working state; when one of its instructions fails the transaction is omitted
  and its writes are discarded, and the transactions after it still run; the writes of the
  transactions that ran and the block's own records are committed as one batch, so that a
  failed commit leaves the store as it was.
\<close>

fun spec_process_transactions ::
  "(transaction \<Rightarrow> string) \<Rightarrow> int \<Rightarrow> transaction list \<Rightarrow> operation list \<Rightarrow> store \<Rightarrow>
   operation list \<times> store" where
  "spec_process_transactions txHash now [] operations working = (operations, working)"
| "spec_process_transactions txHash now (tx # rest) operations working =
     (case execute_instructions now (signer_id (body tx)) (instructions (body tx)) working of
        (Inl e, _) \<Rightarrow> spec_process_transactions txHash now rest operations working
      | (Inr _, working') \<Rightarrow>
          spec_process_transactions txHash now rest
            (operations @ [PutTxOp (txHash tx) tx]) working')"

definition spec_applyBlock ::
  "(block_header \<Rightarrow> string) \<Rightarrow> (transaction \<Rightarrow> string) \<Rightarrow> bool \<Rightarrow> int \<Rightarrow> block \<Rightarrow> store \<Rightarrow>
   outcome" where
  "spec_applyBlock blockHash txHash commits now b s =
     (case spec_process_transactions txHash now (transactions b)
             [PutBlockOp b, PutBlockByHashOp (blockHash (header b)) (height (header b))] s of
        (ops, working) \<Rightarrow>
          if commits
          then (Inr (), foldl apply_operation working (ops @ [PutLastHeightOp (height (header b))]))
          else (Inl StorageError, s))"

text \<open>Blocks on the ledger of the scenarios, and stand-ins for the two hash functions.\<close>

definition example_block_hash :: "block_header \<Rightarrow> string" where
  "example_block_hash h = ''block-'' @ prev_hash h"

definition example_tx_hash :: "transaction \<Rightarrow> string" where
  "example_tx_hash t = ''tx-'' @ signer_id (body t)"

definition example_signature :: signature where
  "example_signature = \<lparr>sig_public_key = ''ed25519:K'', sig_value = ''S''\<rparr>"

definition example_tx :: "string \<Rightarrow> instruction list \<Rightarrow> transaction" where
  "example_tx signer is =
     \<lparr>body = \<lparr>chain_id = ''miniroha-test'', signer_id = signer, nonce = 1, created_at = 7,
               instructions = is\<rparr>,
      tx_signature = example_signature\<rparr>"

definition example_block :: "transaction list \<Rightarrow> block" where
  "example_block ts =
     \<lparr>header = \<lparr>height = 2, prev_hash = ''genesis'', timestamp = 8\<rparr>,
      transactions = ts, proposer_id = ''node1'', block_signature = example_signature\<rparr>"

text \<open>One transaction that mints 10.00 to Alice.\<close>

definition mint_block :: block where
  "mint_block =
     example_block [example_tx ''alice@root'' [MintAsset ''usd#root'' ''alice@root'' ''10'']]"

text \<open>Two transactions: the first mints 10.00 to Alice, then burns more than Bob holds,
  and would then mint 2.00 to Carol; the second mints 1.00 to Carol.\<close>

definition failing_tx :: transaction where
  "failing_tx =
     example_tx ''alice@root''
       [MintAsset ''usd#root'' ''alice@root'' ''10'', BurnAsset ''usd#root'' ''bob@root'' ''9999'',
        MintAsset ''usd#root'' ''carol@root'' ''2'']"

definition later_tx :: transaction where
  "later_tx = example_tx ''bob@root'' [MintAsset ''usd#root'' ''carol@root'' ''1'']"

definition failing_block :: block where
  "failing_block = example_block [failing_tx, later_tx]"

text \<open>The records only the block applier writes: blocks, the hash index, the transaction
  records and \<^verbatim>\<open>last_height\<close>.\<close>

definition chain_records :: "store \<Rightarrow> (int \<rightharpoonup> block) \<times> (string \<rightharpoonup> int) \<times> (string \<rightharpoonup> transaction) \<times> int option" where
  "chain_records s = (blocks s, blocks_by_hash s, txs s, last_height s)"

section \<open>Genesis bootstrap\<close>

record genesis_section =
  g_domains :: "domain list"
  g_accounts :: "account list"
  g_assets :: "asset list"
  g_balances :: "balance list"
  g_roles :: "role list"
  g_validators :: "validator list"

record genesis_config =
  g_chain_id :: string
  genesis :: genesis_section

text \<open>
  \<^verbatim>\<open>validateGenesisConfig\<close> is a sequence of loops, each throwing at the first entry it
  rejects. A loop that collects identifiers in a \<^verbatim>\<open>Set\<close> returns the set. The tests
  \<^verbatim>\<open>!x\<close> on a string field are tests for the empty string; the tests on the types of
  fields hold by the types of the records.
\<close>

fun validate_domains :: "domain list \<Rightarrow> string set \<Rightarrow> error + string set" where
  "validate_domains [] domainIds = Inr domainIds"
| "validate_domains (d # rest) domainIds =
     (if domain_id d = [] then Inl (GenesisError ''Domain must have an id'')
      else if domain_id d \<in> domainIds
      then Inl (GenesisError (''Duplicate domain ID: '' @ domain_id d))
      else validate_domains rest (insert (domain_id d) domainIds))"

fun validate_accounts :: "string set \<Rightarrow> account list \<Rightarrow> string set \<Rightarrow> error + string set" where
  "validate_accounts domainIds [] accountIds = Inr accountIds"
| "validate_accounts domainIds (a # rest) accountIds =
     (if acct_id a = [] then Inl (GenesisError ''Account must have an id'')
      else if acct_id a \<in> accountIds
      then Inl (GenesisError (''Duplicate account ID: '' @ acct_id a))
      else
        let parts = split_str CHR ''@'' (acct_id a); name = part parts 0; dom = part parts 1
        in if name = [] \<or> dom = []
           then Inl (GenesisError (''Invalid account format: '' @ acct_id a @
                                  ''. Expected format: name@domain''))
           else if dom \<notin> domainIds
           then Inl (GenesisError (''Account '' @ acct_id a @
                                  '' references non-existent domain '' @ dom))
           else if public_key a = []
           then Inl (GenesisError (''Account '' @ acct_id a @ '' must have a public_key''))
           else validate_accounts domainIds rest (insert (acct_id a) accountIds))"

fun validate_roles :: "role list \<Rightarrow> string set \<Rightarrow> error + string set" where
  "validate_roles [] roleIds = Inr roleIds"
| "validate_roles (r # rest) roleIds =
     (if role_id r = [] then Inl (GenesisError ''Role must have an id'')
      else if role_id r \<in> roleIds
      then Inl (GenesisError (''Duplicate role ID: '' @ role_id r))
      else validate_roles rest (insert (role_id r) roleIds))"

fun validate_assets :: "string set \<Rightarrow> asset list \<Rightarrow> string set \<Rightarrow> error + string set" where
  "validate_assets domainIds [] assetIds = Inr assetIds"
| "validate_assets domainIds (a # rest) assetIds =
     (if asst_id a = [] then Inl (GenesisError ''Asset must have an id'')
      else if asst_id a \<in> assetIds
      then Inl (GenesisError (''Duplicate asset ID: '' @ asst_id a))
      else
        let parts = split_str CHR ''#'' (asst_id a); assetId = part parts 0; dom = part parts 1
        in if assetId = [] \<or> dom = []
           then Inl (GenesisError (''Invalid asset format: '' @ asst_id a @
                                  ''. Expected format: asset_id#domain''))
           else if dom \<notin> domainIds
           then Inl (GenesisError (''Asset '' @ asst_id a @
                                  '' references non-existent domain '' @ dom))
           else if precision a < 0 \<or> precision a > 18
           then Inl (GenesisError (''Asset '' @ asst_id a @
                                  '' must have precision between 0 and 18''))
           else validate_assets domainIds rest (insert (asst_id a) assetIds))"

fun validate_balances :: "string set \<Rightarrow> string set \<Rightarrow> balance list \<Rightarrow> error + unit" where
  "validate_balances assetIds accountIds [] = Inr ()"
| "validate_balances assetIds accountIds (b # rest) =
     (if asset_id b = [] then Inl (GenesisError ''Balance must have an asset_id'')
      else if account_id b = [] then Inl (GenesisError ''Balance must have an account_id'')
      else if amount b = [] then Inl (GenesisError ''Balance must have an amount'')
      else if asset_id b \<notin> assetIds
      then Inl (GenesisError (''Balance references non-existent asset '' @ asset_id b))
      else if account_id b \<notin> accountIds
      then Inl (GenesisError (''Balance references non-existent account '' @ account_id b))
      else if \<not> amount_pattern (amount b)
      then Inl (GenesisError (''Invalid amount format: '' @ amount b))
      else validate_balances assetIds accountIds rest)"

text \<open>The nested loop over the accounts and their roles.\<close>

fun validate_role_references :: "string set \<Rightarrow> string \<Rightarrow> string list \<Rightarrow> error + unit" where
  "validate_role_references roleIds account [] = Inr ()"
| "validate_role_references roleIds account (r # rest) =
     (if r \<notin> roleIds
      then Inl (GenesisError (''Account '' @ account @ '' references non-existent role '' @ r))
      else validate_role_references roleIds account rest)"

fun validate_account_roles :: "string set \<Rightarrow> account list \<Rightarrow> error + unit" where
  "validate_account_roles roleIds [] = Inr ()"
| "validate_account_roles roleIds (a # rest) =
     (case validate_role_references roleIds (acct_id a) (acct_roles a) of
        Inl e \<Rightarrow> Inl e
      | Inr _ \<Rightarrow> validate_account_roles roleIds rest)"

fun validate_validators :: "validator list \<Rightarrow> string set \<Rightarrow> error + string set" where
  "validate_validators [] validatorIds = Inr validatorIds"
| "validate_validators (v # rest) validatorIds =
     (if validator_id v = [] then Inl (GenesisError ''Validator must have an id'')
      else if validator_id v \<in> validatorIds
      then Inl (GenesisError (''Duplicate validator ID: '' @ validator_id v))
      else if validator_public_key v = []
      then Inl (GenesisError (''Validator '' @ validator_id v @ '' must have a public_key''))
      else validate_validators rest (insert (validator_id v) validatorIds))"

text \<open>\<^verbatim>\<open>genesis.roles.some(role => role.id === 'admin')\<close> and
  \<^verbatim>\<open>genesis.accounts.some(account => account.roles.includes('admin'))\<close>\<close>

definition hasAdminRole :: "genesis_section \<Rightarrow> bool" where
  "hasAdminRole g = list_ex (\<lambda>r. role_id r = ''admin'') (g_roles g)"

definition hasAdminAccount :: "genesis_section \<Rightarrow> bool" where
  "hasAdminAccount g = list_ex (\<lambda>a. ''admin'' \<in> set (acct_roles a)) (g_accounts g)"

definition validateGenesisConfig :: "genesis_config \<Rightarrow> error + unit" where
  "validateGenesisConfig genesisConfig =
     (if g_chain_id genesisConfig = [] then Inl (GenesisError ''Genesis config must have a chain_id'')
      else
        let g = genesis genesisConfig in
        case validate_domains (g_domains g) {} of Inl e \<Rightarrow> Inl e | Inr domainIds \<Rightarrow>
        case validate_accounts domainIds (g_accounts g) {} of Inl e \<Rightarrow> Inl e | Inr accountIds \<Rightarrow>
        case validate_roles (g_roles g) {} of Inl e \<Rightarrow> Inl e | Inr roleIds \<Rightarrow>
        case validate_assets domainIds (g_assets g) {} of Inl e \<Rightarrow> Inl e | Inr assetIds \<Rightarrow>
        case validate_balances assetIds accountIds (g_balances g) of Inl e \<Rightarrow> Inl e | Inr _ \<Rightarrow>
        case validate_account_roles roleIds (g_accounts g) of Inl e \<Rightarrow> Inl e | Inr _ \<Rightarrow>
        case validate_validators (g_validators g) {} of Inl e \<Rightarrow> Inl e | Inr _ \<Rightarrow>
        if g_validators g = [] then Inl (GenesisError ''Genesis must have at least one validator'')
        else if \<not> hasAdminRole g then Inl (GenesisError ''Genesis must have an admin role'')
        else if \<not> hasAdminAccount g
        then Inl (GenesisError ''Genesis must have at least one account with admin role'')
        else Inr ())"

text \<open>\<^verbatim>\<open>createGenesisBlock\<close>: \<open>sign\<close> is \<^verbatim>\<open>signBlock\<close>, applied to the block with an empty
  signature.\<close>

definition createGenesisBlock :: "(block \<Rightarrow> signature) \<Rightarrow> int \<Rightarrow> block" where
  "createGenesisBlock sign now =
     (let b = \<lparr>header = \<lparr>height = 1, prev_hash = [], timestamp = now\<rparr>, transactions = [],
                proposer_id = ''genesis'',
                block_signature = \<lparr>sig_public_key = [], sig_value = []\<rparr>\<rparr>
      in b\<lparr>block_signature := sign b\<rparr>)"

definition account_operations :: "account \<Rightarrow> operation list" where
  "account_operations a =
     PutAccountOp a #
     (if length (acct_roles a) > 0 then [PutAccountRolesOp (acct_id a) (acct_roles a)] else [])"

definition genesis_operations :: "(block_header \<Rightarrow> string) \<Rightarrow> genesis_config \<Rightarrow> block \<Rightarrow> operation list" where
  "genesis_operations headerHash genesisConfig genesisBlock =
     (let g = genesis genesisConfig in
      map PutDomainOp (g_domains g) @
      concat (map account_operations (g_accounts g)) @
      map PutAssetOp (g_assets g) @
      map PutBalanceOp (g_balances g) @
      map PutRoleOp (g_roles g) @
      map PutValidatorOp (g_validators g) @
      [PutChainIdOp (g_chain_id genesisConfig),
       PutBlockOp genesisBlock,
       PutBlockByHashOp (headerHash (header genesisBlock)) (height (header genesisBlock)),
       PutLastHeightOp (height (header genesisBlock))])"

text \<open>
  \<^verbatim>\<open>GenesisBootstrap.bootstrap(genesisConfig)\<close>: the validation throws before any
  operation is assembled; all writes go through one batch. \<open>headerHash\<close> is
  \<^verbatim>\<open>hash(JSON.stringify(header))\<close>.
\<close>

definition bootstrap ::
  "(block_header \<Rightarrow> string) \<Rightarrow> (block \<Rightarrow> signature) \<Rightarrow> bool \<Rightarrow> int \<Rightarrow> genesis_config \<Rightarrow> store \<Rightarrow>
   (error + block) \<times> store" where
  "bootstrap headerHash sign commits now genesisConfig s =
     (case validateGenesisConfig genesisConfig of
        Inl e \<Rightarrow> (Inl e, s)
      | Inr _ \<Rightarrow>
          let genesisBlock = createGenesisBlock sign now
          in case batch commits (genesis_operations headerHash genesisConfig genesisBlock) s of
               (Inl e, s') \<Rightarrow> (Inl e, s')
             | (Inr _, s') \<Rightarrow> (Inr genesisBlock, s'))"

text \<open>
  A configuration to bootstrap from: one domain, one account that holds the role
  \<^verbatim>\<open>admin\<close>, one validator, and a role \<^verbatim>\<open>admin\<close> with the permissions given.
\<close>

definition example_genesis :: "string list \<Rightarrow> genesis_config" where
  "example_genesis perms =
     \<lparr>g_chain_id = ''miniroha-test'',
      genesis =
        \<lparr>g_domains = [\<lparr>domain_id = ''root'', domain_created_at = 1\<rparr>],
         g_accounts = [\<lparr>acct_id = ''admin@root'', public_key = ''ed25519:A'',
                        acct_roles = [''admin''], acct_created_at = 1\<rparr>],
         g_assets = [],
         g_balances = [],
         g_roles = [\<lparr>role_id = ''admin'', permissions = perms\<rparr>],
         g_validators = [\<lparr>validator_id = ''node1'', validator_public_key = ''ed25519:V''\<rparr>]\<rparr>\<rparr>"

definition no_admin_role_genesis :: genesis_config where
  "no_admin_role_genesis =
     (example_genesis [''*''])\<lparr>genesis := (genesis (example_genesis [''*'']))\<lparr>g_roles := []\<rparr>\<rparr>"

definition no_admin_account_genesis :: genesis_config where
  "no_admin_account_genesis =
     (example_genesis [''*''])
       \<lparr>genesis := (genesis (example_genesis [''*'']))
          \<lparr>g_accounts := [\<lparr>acct_id = ''admin@root'', public_key = ''ed25519:A'',
                            acct_roles = [], acct_created_at = 1\<rparr>]\<rparr>\<rparr>"

definition example_sign :: "block \<Rightarrow> signature" where
  "example_sign b = example_signature"

text \<open>The property the specification asks of a configuration: a role named \<^verbatim>\<open>admin\<close>
  whose permissions contain the wildcard.\<close>

definition has_wildcard_admin_role :: "genesis_section \<Rightarrow> bool" where
  "has_wildcard_admin_role g =
     list_ex (\<lambda>r. role_id r = ''admin'' \<and> ''*'' \<in> set (permissions r)) (g_roles g)"

section \<open>The nonce check of the transaction validator\<close>

record validation_error =
  code :: string
  message :: string

text \<open>
  \<^verbatim>\<open>TransactionValidator.lastNonces\<close>, a map from signer to nonce that starts empty, and
  \<^verbatim>\<open>this.lastNonces.get(body.signer_id) || 0\<close>. A nonce is an integer here; the numbers
  that are not integers, and the text of the message for a nonce from \<^verbatim>\<open>1e21\<close> on, are
  outside the model.
\<close>

type_synonym nonces = "string \<rightharpoonup> int"

definition initial_lastNonces :: nonces where
  "initial_lastNonces = Map.empty"

definition last_seen_nonce :: "nonces \<Rightarrow> string \<Rightarrow> int" where
  "last_seen_nonce lastNonces signer = (case lastNonces signer of None \<Rightarrow> 0 | Some n \<Rightarrow> n)"

definition validateNonce :: "nonces \<Rightarrow> transaction_body \<Rightarrow> validation_error option" where
  "validateNonce lastNonces b =
     (let lastNonce = last_seen_nonce lastNonces (signer_id b)
      in if nonce b \<le> lastNonce
         then Some \<lparr>code = ''INVALID_NONCE'',
                    message = ''Nonce '' @ toString (nonce b) @
                              '' must be greater than last nonce '' @ toString lastNonce\<rparr>
         else None)"

definition updateLastNonce :: "string \<Rightarrow> int \<Rightarrow> nonces \<Rightarrow> nonces" where
  "updateLastNonce signerId n lastNonces = lastNonces(signerId \<mapsto> n)"

text \<open>
  The node holds the state store and the transaction validator, and the validator's only
  state is its map \<^verbatim>\<open>lastNonces\<close>, which stands for it here. The block producer is
  constructed from the state store and the mempool: applying a block works on the store
  and has no access to the validator. \<^verbatim>\<open>updateLastNonce\<close> is the validator's only method
  that writes the map.
\<close>

record node =
  stateStore :: store
  transactionValidator :: nonces

definition node_validateNonce :: "node \<Rightarrow> transaction \<Rightarrow> validation_error option" where
  "node_validateNonce n tx = validateNonce (transactionValidator n) (body tx)"

definition node_applyBlock ::
  "(block_header \<Rightarrow> string) \<Rightarrow> (transaction \<Rightarrow> string) \<Rightarrow> bool \<Rightarrow> int \<Rightarrow> block \<Rightarrow> node \<Rightarrow>
   (error + unit) \<times> node" where
  "node_applyBlock blockHash txHash commits now b n =
     (case applyBlock blockHash txHash commits now b (stateStore n) of
        (r, s') \<Rightarrow> (r, n\<lparr>stateStore := s'\<rparr>))"

text \<open>A node on the ledger of the scenarios that has validated nothing yet, Alice's
  transfer of 100.00 to Bob with nonce 1, and two blocks that hold it, at heights 2
  and 3.\<close>

definition fresh_node :: node where
  "fresh_node = \<lparr>stateStore = scenario_store, transactionValidator = initial_lastNonces\<rparr>"

definition transfer_tx :: transaction where
  "transfer_tx =
     example_tx ''alice@root'' [TransferAsset ''usd#root'' ''alice@root'' ''bob@root'' ''100'']"

definition transfer_block :: block where
  "transfer_block = example_block [transfer_tx]"

definition replay_block :: block where
  "replay_block =
     (example_block [transfer_tx])
       \<lparr>header := \<lparr>height = 3, prev_hash = ''block-genesis'', timestamp = 10\<rparr>\<rparr>"

section \<open>The prevote step of the consensus engine\<close>

datatype consensus_step = Propose | PreVote | PreCommit | Commit

record vote =
  block_hash :: "string option"
  vote_height :: int
  vote_round :: int
  voter_id :: string
  vote_signature :: signature

text \<open>
  The vote maps are \<^verbatim>\<open>Map<string, Vote>\<close>, kept here as lists of entries in insertion
  order with one entry per key: \<^verbatim>\<open>set\<close> replaces the vote of a validator that has
  voted and appends otherwise.
\<close>

record consensus_state =
  cs_height :: int
  cs_round :: int
  step :: consensus_step
  lockedBlock :: "block option"
  lockedRound :: "int option"
  validBlock :: "block option"
  validRound :: "int option"
  prevotes :: "(string \<times> vote) list"
  precommits :: "(string \<times> vote) list"

fun map_set :: "string \<Rightarrow> vote \<Rightarrow> (string \<times> vote) list \<Rightarrow> (string \<times> vote) list" where
  "map_set k v [] = [(k, v)]"
| "map_set k v ((k', v') # rest) =
     (if k' = k then (k, v) # rest else (k', v') # map_set k v rest)"

text \<open>\<^verbatim>\<open>getQuorumSize\<close> for \<open>n\<close> validators: \<^verbatim>\<open>Math.floor((n - 1) / 3)\<close> is the integer
  division that rounds down.\<close>

definition getQuorumSize :: "nat \<Rightarrow> int" where
  "getQuorumSize n = (let f = (int n - 1) div 3 in 2 * f + 1)"

text \<open>\<^verbatim>\<open>hasQuorum(votes, blockHash)\<close>: \<open>None\<close> is \<^verbatim>\<open>undefined\<close>, both as the argument and
  as the \<^verbatim>\<open>block_hash\<close> of a nil vote.\<close>

definition hasQuorum :: "nat \<Rightarrow> (string \<times> vote) list \<Rightarrow> string option \<Rightarrow> bool" where
  "hasQuorum n votes blockHash =
     (int (length (filter (\<lambda>v. blockHash = None \<or> block_hash v = blockHash) (map snd votes)))
        \<ge> getQuorumSize n)"

text \<open>
  \<^verbatim>\<open>checkPrevoteQuorum\<close> for an engine with \<open>n\<close> validators; \<open>headerHash\<close> is the hash of the
  canonical header. The result is the new state and the argument of the call of
  \<^verbatim>\<open>precommit\<close>, if it is called: \<open>Some None\<close> is a nil precommit.
\<close>

definition check_nil_quorum :: "nat \<Rightarrow> consensus_state \<Rightarrow> consensus_state \<times> string option option" where
  "check_nil_quorum n st =
     (if hasQuorum n (prevotes st) None then (st\<lparr>step := PreCommit\<rparr>, Some None)
      else (st, None))"

definition checkPrevoteQuorum ::
  "(block_header \<Rightarrow> string) \<Rightarrow> nat \<Rightarrow> consensus_state \<Rightarrow> consensus_state \<times> string option option" where
  "checkPrevoteQuorum headerHash n st =
     (if step st \<noteq> PreVote then (st, None)
      else case validBlock st of
             Some vb \<Rightarrow>
               let blockHash = headerHash (header vb)
               in if hasQuorum n (prevotes st) (Some blockHash)
                  then (st\<lparr>lockedBlock := validBlock st, lockedRound := Some (cs_round st),
                           step := PreCommit\<rparr>,
                        Some (Some blockHash))
                  else check_nil_quorum n st
           | None \<Rightarrow> check_nil_quorum n st)"

text \<open>
  \<^verbatim>\<open>handlePrevote(vote)\<close> for an engine whose validator map has the keys \<open>validatorIds\<close>;
  \<open>verifyMessage\<close> is the check of the signature.
\<close>

datatype message_type = Proposal | Prevote | Precommit

record consensus_message =
  msg_type :: message_type
  msg_height :: int
  msg_round :: int
  validatorId :: string
  blockHash :: "string option"
  msg_block :: "block option"
  msg_signature :: signature

definition handlePrevote ::
  "(block_header \<Rightarrow> string) \<Rightarrow> (consensus_message \<Rightarrow> bool) \<Rightarrow> string list \<Rightarrow>
   consensus_state \<Rightarrow> consensus_message \<Rightarrow> consensus_state \<times> string option option" where
  "handlePrevote headerHash verifyMessage validatorIds st v =
     (if msg_type v \<noteq> Prevote then (st, None)
      else if msg_height v \<noteq> cs_height st then (st, None)
      else if msg_round v \<noteq> cs_round st then (st, None)
      else if validatorId v \<notin> set validatorIds then (st, None)
      else if \<not> verifyMessage v then (st, None)
      else checkPrevoteQuorum headerHash (length validatorIds)
             (st\<lparr>prevotes :=
                   map_set (validatorId v)
                     \<lparr>block_hash = blockHash v, vote_height = msg_height v,
                      vote_round = msg_round v, voter_id = validatorId v,
                      vote_signature = msg_signature v\<rparr>
                     (prevotes st)\<rparr>))"

text \<open>The number of nil votes among the recorded votes.\<close>

definition nil_votes :: "(string \<times> vote) list \<Rightarrow> nat" where
  "nil_votes votes = length (filter (\<lambda>v. block_hash v = None) (map snd votes))"

text \<open>
  A node among four validators that has seen no valid proposal and prevoted nil, the
  prevotes of two other validators for the block \<^verbatim>\<open>H\<close>, and the node once it has
  recorded them.
\<close>

definition example_vote :: "string \<Rightarrow> string option \<Rightarrow> string \<times> vote" where
  "example_vote v h =
     (v, \<lparr>block_hash = h, vote_height = 2, vote_round = 0, voter_id = v,
          vote_signature = example_signature\<rparr>)"

definition own_nil_prevote :: consensus_state where
  "own_nil_prevote =
     \<lparr>cs_height = 2, cs_round = 0, step = PreVote, lockedBlock = None, lockedRound = None,
      validBlock = None, validRound = None,
      prevotes = [example_vote ''node1'' None],
      precommits = []\<rparr>"

definition example_prevote :: "string \<Rightarrow> consensus_message" where
  "example_prevote v =
     \<lparr>msg_type = Prevote, msg_height = 2, msg_round = 0, validatorId = v,
      blockHash = Some ''H'', msg_block = None, msg_signature = example_signature\<rparr>"

definition four_validators :: "string list" where
  "four_validators = [''node1'', ''node2'', ''node3'', ''node4'']"

definition split_prevotes :: consensus_state where
  "split_prevotes =
     own_nil_prevote
       \<lparr>prevotes := [example_vote ''node1'' None, example_vote ''node2'' (Some ''H''),
                     example_vote ''node3'' (Some ''H'')]\<rparr>"

section \<open>Canonical serialization\<close>

text \<open>
  The values that are serialized: the records of the data model and the objects built from
  them are JSON values with integer numbers. An object is the list of its own properties,
  each key once; looking a key up finds its value. A number is an integer that a double
  holds exactly and \<^verbatim>\<open>JSON.stringify\<close> writes in digits, as heights, timestamps, nonces and
  precisions are; the text of a number from \<^verbatim>\<open>1e21\<close> on is outside the model.
\<close>

datatype json =
    JNull
  | JBool bool
  | JNumber int
  | JString string
  | JArray "json list"
  | JObject "(string \<times> json) list"

text \<open>\<^verbatim>\<open>QuoteJSONString\<close>: the quotation mark, the backslash and the control characters are
  escaped.\<close>

definition hex_digit :: "nat \<Rightarrow> char" where
  "hex_digit d = ''0123456789abcdef'' ! d"

definition escape :: "char \<Rightarrow> string" where
  "escape c =
     (if c = CHR 0x08 then [CHR 0x5C, CHR ''b'']
      else if c = CHR 0x09 then [CHR 0x5C, CHR ''t'']
      else if c = CHR 0x0A then [CHR 0x5C, CHR ''n'']
      else if c = CHR 0x0C then [CHR 0x5C, CHR ''f'']
      else if c = CHR 0x0D then [CHR 0x5C, CHR ''r'']
      else if c = CHR 0x22 then [CHR 0x5C, CHR 0x22]
      else if c = CHR 0x5C then [CHR 0x5C, CHR 0x5C]
      else if (of_char c :: nat) < 32
      then [CHR 0x5C, CHR ''u'', CHR ''0'', CHR ''0'',
            hex_digit (of_char c div 16), hex_digit (of_char c mod 16)]
      else [c])"

definition quote :: "string \<Rightarrow> string" where
  "quote s = CHR 0x22 # concat (map escape s) @ [CHR 0x22]"

fun join :: "string list \<Rightarrow> string" where
  "join [] = []"
| "join [x] = x"
| "join (x # y # rest) = x @ CHR '','' # join (y # rest)"

text \<open>\<^verbatim>\<open>JSON.stringify(value)\<close> with no replacer and no indentation: the members of an
  object in the order of its properties.\<close>

fun render :: "json \<Rightarrow> string" where
  "render JNull = ''null''"
| "render (JBool b) = (if b then ''true'' else ''false'')"
| "render (JNumber n) = toString n"
| "render (JString s) = quote s"
| "render (JArray xs) = CHR ''['' # join (map render xs) @ [CHR '']'']"
| "render (JObject kvs) =
     CHR ''{'' # join (map (\<lambda>(k, v). quote k @ CHR '':'' # render v) kvs) @ [CHR ''}'']"

text \<open>
  \<^verbatim>\<open>JSON.stringify(value, replacer)\<close> with an array as the replacer: the array becomes the
  property list \<open>K\<close>, and \<^verbatim>\<open>SerializeJSONObject\<close> walks \<open>K\<close>, at every nesting depth,
  in place of the object's own keys, writing a member for each name of \<open>K\<close> that the
  object has. So the value written is the one \<open>select K\<close> builds, in which an object
  keeps the members named in \<open>K\<close>, in the order of \<open>K\<close>. The elements of an array are
  all written, in their order.
\<close>

fun select :: "string list \<Rightarrow> json \<Rightarrow> json" where
  "select K (JArray xs) = JArray (map (select K) xs)"
| "select K (JObject kvs) =
     JObject (List.map_filter
                (\<lambda>P. map_option (Pair P) (map_of (map (\<lambda>(k, v). (k, select K v)) kvs) P)) K)"
| "select K v = v"

text \<open>\<^verbatim>\<open>Object.keys(obj)\<close>: the keys of an object, the indices of an array or a string,
  nothing for a number or a boolean, and a \<^verbatim>\<open>TypeError\<close> for \<^verbatim>\<open>null\<close>.\<close>

definition index_keys :: "nat \<Rightarrow> string list" where
  "index_keys n = map (\<lambda>i. toString (int i)) [0..<n]"

definition object_keys :: "json \<Rightarrow> error + string list" where
  "object_keys v =
     (case v of
        JNull \<Rightarrow> Inl TypeError
      | JBool _ \<Rightarrow> Inr []
      | JNumber _ \<Rightarrow> Inr []
      | JString s \<Rightarrow> Inr (index_keys (length s))
      | JArray xs \<Rightarrow> Inr (index_keys (length xs))
      | JObject kvs \<Rightarrow> Inr (map fst kvs))"

text \<open>The property list of \<^verbatim>\<open>JSON.stringify\<close> for the replacer \<^verbatim>\<open>keys.sort()\<close>: the sort is
  by code units, and a name is listed once.\<close>

definition property_list :: "string list \<Rightarrow> string list" where
  "property_list keys = remdups (sort keys)"

text \<open>\<^verbatim>\<open>canonicalJsonStringify(obj)\<close>, that is
  \<^verbatim>\<open>JSON.stringify(obj, Object.keys(obj).sort())\<close>, and the value whose text it returns.\<close>

definition canonical_value :: "json \<Rightarrow> json" where
  "canonical_value obj =
     (case object_keys obj of Inl _ \<Rightarrow> obj | Inr keys \<Rightarrow> select (property_list keys) obj)"

definition canonicalJsonStringify :: "json \<Rightarrow> error + string" where
  "canonicalJsonStringify obj =
     (case object_keys obj of
        Inl e \<Rightarrow> Inl e
      | Inr keys \<Rightarrow> Inr (render (select (property_list keys) obj)))"

text \<open>The keys of every object, at every nesting depth, ascend strictly.\<close>

fun keys_ascending :: "json \<Rightarrow> bool" where
  "keys_ascending (JArray xs) = list_all keys_ascending xs"
| "keys_ascending (JObject kvs) =
     (sorted_wrt (<) (map fst kvs) \<and> list_all (\<lambda>(k, v). keys_ascending v) kvs)"
| "keys_ascending v = True"

text \<open>
  \<open>reduct v t\<close>: the value \<open>t\<close> is \<open>v\<close> with members of objects left out or moved. Numbers,
  strings and booleans are the same, an array has the same length and its elements
  correspond in order, and every member of an object of \<open>t\<close> is a member of the object
  of \<open>v\<close> it comes from.
\<close>

inductive reduct :: "json \<Rightarrow> json \<Rightarrow> bool" where
  reduct_null: "reduct JNull JNull"
| reduct_bool: "reduct (JBool b) (JBool b)"
| reduct_number: "reduct (JNumber n) (JNumber n)"
| reduct_string: "reduct (JString s) (JString s)"
| reduct_array: "list_all2 reduct xs ys \<Longrightarrow> reduct (JArray xs) (JArray ys)"
| reduct_object:
    "distinct (map fst kvs') \<Longrightarrow>
     (\<forall>(k, t) \<in> set kvs'. \<exists>v. map_of kvs k = Some v \<and> reduct v t) \<Longrightarrow>
     reduct (JObject kvs) (JObject kvs')"

text \<open>
  \<open>same_object v w\<close>: the two values cannot be told apart by reading them. Their objects
  have the same keys with values that are the same in this sense, in any order of the
  keys; their arrays have the same elements in the same order.
\<close>

inductive same_object :: "json \<Rightarrow> json \<Rightarrow> bool" where
  same_null: "same_object JNull JNull"
| same_bool: "same_object (JBool b) (JBool b)"
| same_number: "same_object (JNumber n) (JNumber n)"
| same_string: "same_object (JString s) (JString s)"
| same_array: "list_all2 same_object xs ys \<Longrightarrow> same_object (JArray xs) (JArray ys)"
| same_members:
    "set (map fst kvs) = set (map fst kvs') \<Longrightarrow>
     (\<forall>k \<in> set (map fst kvs).
        \<exists>v w. map_of kvs k = Some v \<and> map_of kvs' k = Some w \<and> same_object v w) \<Longrightarrow>
     same_object (JObject kvs) (JObject kvs')"

text \<open>
  The objects that are signed. \<^verbatim>\<open>signTransaction\<close> signs the canonical text of the
  transaction body, an object with the fields of \<^verbatim>\<open>TransactionBody\<close> whose instructions are
  objects with a \<^verbatim>\<open>type\<close> tag and the fields of their variant.
\<close>

fun instruction_json :: "instruction \<Rightarrow> json" where
  "instruction_json (RegisterDomain i) =
     JObject [(''type'', JString ''RegisterDomain''), (''id'', JString i)]"
| "instruction_json (RegisterAccount i pk) =
     JObject [(''type'', JString ''RegisterAccount''), (''id'', JString i),
              (''public_key'', JString pk)]"
| "instruction_json (RegisterAsset i p) =
     JObject [(''type'', JString ''RegisterAsset''), (''id'', JString i),
              (''precision'', JNumber p)]"
| "instruction_json (MintAsset a c m) =
     JObject [(''type'', JString ''MintAsset''), (''asset_id'', JString a),
              (''account_id'', JString c), (''amount'', JString m)]"
| "instruction_json (BurnAsset a c m) =
     JObject [(''type'', JString ''BurnAsset''), (''asset_id'', JString a),
              (''account_id'', JString c), (''amount'', JString m)]"
| "instruction_json (TransferAsset a src dest m) =
     JObject [(''type'', JString ''TransferAsset''), (''asset_id'', JString a),
              (''src_account'', JString src), (''dest_account'', JString dest),
              (''amount'', JString m)]"
| "instruction_json (GrantRole r c) =
     JObject [(''type'', JString ''GrantRole''), (''role_id'', JString r),
              (''account_id'', JString c)]"
| "instruction_json (RevokeRole r c) =
     JObject [(''type'', JString ''RevokeRole''), (''role_id'', JString r),
              (''account_id'', JString c)]"

definition body_json :: "transaction_body \<Rightarrow> json" where
  "body_json b =
     JObject [(''chain_id'', JString (chain_id b)), (''signer_id'', JString (signer_id b)),
              (''nonce'', JNumber (nonce b)), (''created_at'', JNumber (created_at b)),
              (''instructions'', JArray (map instruction_json (instructions b)))]"

text \<open>\<^verbatim>\<open>signBlock\<close> signs the canonical text of the block without its signature; this is
  the one \<^verbatim>\<open>createGenesisBlock\<close> builds, at the time 8.\<close>

definition block_for_signing :: json where
  "block_for_signing =
     JObject [(''header'', JObject [(''height'', JNumber 1), (''prev_hash'', JString []),
                                   (''timestamp'', JNumber 8)]),
              (''transactions'', JArray []),
              (''proposer_id'', JString ''genesis'')]"

text \<open>The texts the serialization returns for that block and for Alice's transfer.\<close>

definition block_text :: string where
  \<open>block_text = ''{"header":{},"proposer_id":"genesis","transactions":[]}''\<close>

definition transfer_body_text :: string where
  \<open>transfer_body_text =
     ''{"chain_id":"miniroha-test","created_at":7,"instructions":[{}],"nonce":1,"signer_id":"alice@root"}''\<close>

text \<open>The same transfer with another destination and another amount.\<close>

definition forged_tx :: transaction where
  "forged_tx =
     example_tx ''alice@root''
       [TransferAsset ''usd#root'' ''alice@root'' ''mallory@root'' ''99999'']"

section \<open>Amount conversion: proofs\<close>

lemma digit_not_dot: "is_digit c \<Longrightarrow> c \<noteq> CHR ''.''"
  by (auto simp: is_digit_def)

lemma digits_no_dot: "list_all is_digit w \<Longrightarrow> CHR ''.'' \<notin> set w"
  by (auto simp: list_all_iff dest: digit_not_dot)

lemma split_no_sep: "sep \<notin> set s \<Longrightarrow> split_str sep s = [s]"
  by (induction s) auto

lemma split_at_sep: "sep \<notin> set w \<Longrightarrow> split_str sep (w @ sep # f) = w # split_str sep f"
  by (induction w) auto

text \<open>The two shapes of a string that matches the amount pattern.\<close>

lemma amount_pattern_cases:
  assumes "amount_pattern s"
  obtains (whole) "s \<noteq> []" "list_all is_digit s"
  | (point) w f where "w \<noteq> []" "list_all is_digit w" "f \<noteq> []" "list_all is_digit f"
      "s = w @ CHR ''.'' # f"
proof (cases "dropWhile is_digit s")
  case Nil
  then have "list_all is_digit s" by (simp add: list_all_iff)
  moreover from assms have "s \<noteq> []" by (auto simp: amount_pattern_def)
  ultimately show ?thesis using whole by blast
next
  case (Cons c f)
  let ?w = "takeWhile is_digit s"
  have s: "s = ?w @ c # f" using Cons takeWhile_dropWhile_id [of is_digit s] by simp
  from assms Cons have "?w \<noteq> []" "c = CHR ''.''" "f \<noteq> []" "list_all is_digit f"
    by (auto simp: amount_pattern_def)
  moreover have "list_all is_digit ?w" by (simp add: list_all_iff) (meson set_takeWhileD)
  ultimately show ?thesis using s point by metis
qed

lemma integer_part_whole: "CHR ''.'' \<notin> set s \<Longrightarrow> integer_part s = s"
  by (auto simp: integer_part_def)

lemma fractional_tail_whole: "CHR ''.'' \<notin> set s \<Longrightarrow> fractional_tail s = []"
  by (induction s) (auto simp: fractional_tail_def)

lemma integer_part_point: "CHR ''.'' \<notin> set w \<Longrightarrow> integer_part (w @ CHR ''.'' # f) = w"
  unfolding integer_part_def by (induction w) auto

lemma fractional_tail_point: "CHR ''.'' \<notin> set w \<Longrightarrow> fractional_tail (w @ CHR ''.'' # f) = f"
  unfolding fractional_tail_def by (induction w) auto

lemma digit_not_space: "is_digit c \<Longrightarrow> \<not> is_white_space c"
  by (auto simp: is_digit_def is_white_space_def)

lemma trim_id:
  assumes "s \<noteq> []" and "\<not> is_white_space (hd s)" and "\<not> is_white_space (last s)"
  shows "trim s = s"
proof -
  have "dropWhile is_white_space s = s"
    using assms(1,2) by (cases s) simp_all
  moreover have "dropWhile is_white_space (rev s) = rev s"
    using assms(1,3) by (cases "rev s") (simp_all add: hd_rev [symmetric])
  ultimately show ?thesis by (simp add: trim_def)
qed

lemma trim_digits:
  assumes "s \<noteq> []" and "list_all is_digit s"
  shows "trim s = s"
proof (rule trim_id)
  show "s \<noteq> []" by (rule assms(1))
  have "is_digit (hd s)" "is_digit (last s)"
    using assms by (simp_all add: list_all_iff)
  then show "\<not> is_white_space (hd s)" "\<not> is_white_space (last s)"
    by (simp_all add: digit_not_space)
qed

lemma BigInt_digits:
  assumes "s \<noteq> []" and "list_all is_digit s"
  shows "BigInt s = Inr (dec_value s)"
proof -
  obtain c rest where s: "s = c # rest" using assms(1) by (cases s) auto
  have c: "is_digit c" using assms(2) s by simp
  then have sign: "c \<noteq> CHR ''+''" "c \<noteq> CHR ''-''" by (auto simp: is_digit_def)
  have dec: "decimal_digits (c # rest) = Inr (dec_value s)"
    using assms s by (simp add: decimal_digits_def)
  have radix: "x \<noteq> CHR ''x'' \<and> x \<noteq> CHR ''X'' \<and> x \<noteq> CHR ''o'' \<and> x \<noteq> CHR ''O'' \<and>
      x \<noteq> CHR ''b'' \<and> x \<noteq> CHR ''B''" if "rest = x # ds" for x ds
  proof -
    have "is_digit x" using assms(2) s that by simp
    then show ?thesis by (auto simp: is_digit_def)
  qed
  have "trim s = c # rest" using trim_digits [OF assms] s by simp
  then show ?thesis
    using sign dec radix by (cases rest) (auto simp: BigInt_def)
qed

lemma is_digit_zero: "is_digit CHR ''0''"
  by (simp add: is_digit_def)

text \<open>What \<open>validateAmount\<close> returns on a string that matches the pattern, for any
  precision.\<close>

lemma validateAmount_digits:
  assumes "amount_pattern s"
  shows "list_all is_digit
           (integer_part s @ fractional_tail s @
            replicate (nat p - length (fractional_tail s)) CHR ''0'') \<and>
         validateAmount s p =
           (if int (length (fractional_tail s)) > p then Inl (ExceedsPrecision s p)
            else Inr (smallest_unit s (nat p)))"
  using assms
proof (cases rule: amount_pattern_cases)
  case whole
  then have nd: "CHR ''.'' \<notin> set s" by (simp add: digits_no_dot)
  have d: "list_all is_digit (s @ replicate (nat p) CHR ''0'')"
    using whole by (auto simp: list_all_iff is_digit_zero)
  then show ?thesis
    using assms whole
    by (simp add: validateAmount_def split_no_sep [OF nd] integer_part_whole [OF nd]
        fractional_tail_whole [OF nd] padEnd_def smallest_unit_def BigInt_digits)
next
  case (point w f)
  then have nw: "CHR ''.'' \<notin> set w" and nf: "CHR ''.'' \<notin> set f"
    by (simp_all add: digits_no_dot)
  have sp: "split_str CHR ''.'' s = [w, f]"
    using point(5) split_at_sep [OF nw, of f] split_no_sep [OF nf] by simp
  have d: "list_all is_digit (w @ f @ replicate (nat p - length f) CHR ''0'')"
    using point by (auto simp: list_all_iff is_digit_zero)
  then show ?thesis
    using assms point(1) unfolding point(5)
    by (simp add: validateAmount_def sp [unfolded point(5)] integer_part_point [OF nw]
        fractional_tail_point [OF nw] padEnd_def smallest_unit_def BigInt_digits)
qed

text \<open>
  Claim C6. For an amount string that matches the pattern and a precision \<open>p\<close> from 0 to
  18, \<open>validateAmount\<close> fails exactly when the fractional tail has more than \<open>p\<close> digits, and
  otherwise returns the integer written by the integer part followed by the fractional
  tail padded on the right with zeros to \<open>p\<close> digits.
\<close>

theorem validateAmount_conversion:
  assumes "amount_pattern s" and "0 \<le> p" and "p \<le> 18"
  shows "validateAmount s p =
     (if int (length (fractional_tail s)) > p then Inl (ExceedsPrecision s p)
      else Inr (smallest_unit s (nat p)))"
  using validateAmount_digits [OF assms(1), of p] by simp

theorem validateAmount_conversion_witness:
  "amount_pattern ''1000'' \<and> (0::int) \<le> 2 \<and> (2::int) \<le> 18 \<and>
   validateAmount ''1000'' 2 = Inr 100000 \<and>
   amount_pattern ''10.555'' \<and> validateAmount ''10.555'' 2 = Inl (ExceedsPrecision ''10.555'' 2)"
  using validateAmount_conversion [of "''1000''" 2] validateAmount_conversion [of "''10.555''" 2]
  by (simp add: amount_pattern_def is_digit_def smallest_unit_def integer_part_def
      fractional_tail_def dec_value_def digit_value_def numeral_2_eq_2)

section \<open>Decimal strings: proofs\<close>

lemma dec_value_snoc: "dec_value (xs @ [c]) = 10 * dec_value xs + digit_value c"
  by (simp add: dec_value_def)

lemma dec_value_nonneg: "list_all is_digit s \<Longrightarrow> 0 \<le> dec_value s"
proof (induction s rule: rev_induct)
  case Nil
  then show ?case by (simp add: dec_value_def)
next
  case (snoc c s)
  then have "is_digit c" by simp
  then have "0 \<le> digit_value c" by (auto simp: is_digit_def digit_value_def)
  with snoc show ?case by (simp add: dec_value_snoc)
qed

lemma digit_char_is_digit: "d < 10 \<Longrightarrow> is_digit (digit_char d)"
  unfolding is_digit_def digit_char_def by (rule nth_mem) simp

lemma digit_value_digit_char: "d < 10 \<Longrightarrow> digit_value (digit_char d) = int d"
proof -
  assume "d < 10"
  then have "d \<in> {0,1,2,3,4,5,6,7,8,9}" by auto
  then show ?thesis by (auto simp: digit_value_def digit_char_def)
qed

lemma nat_digits_props:
  "nat_digits n \<noteq> [] \<and> list_all is_digit (nat_digits n) \<and> dec_value (nat_digits n) = int n"
proof (induction n rule: nat_digits.induct)
  case (1 n)
  show ?case
  proof (cases "n < 10")
    case True
    then show ?thesis
      by (simp add: nat_digits.simps [of n] digit_char_is_digit dec_value_def
          digit_value_digit_char)
  next
    case False
    with 1 have ih: "nat_digits (n div 10) \<noteq> []" "list_all is_digit (nat_digits (n div 10))"
      "dec_value (nat_digits (n div 10)) = int (n div 10)" by simp_all
    have "n mod 10 < 10" by simp
    then show ?thesis
      using False ih
      by (simp add: nat_digits.simps [of n] digit_char_is_digit dec_value_snoc
          digit_value_digit_char zdiv_int zmod_int)
  qed
qed

text \<open>\<^verbatim>\<open>BigInt\<close> reads back what \<^verbatim>\<open>toString\<close> writes, of either sign.\<close>

lemma BigInt_toString: "BigInt (toString i) = Inr i"
proof (cases "i < 0")
  case False
  then show ?thesis
    using nat_digits_props [of "nat i"] by (simp add: toString_def BigInt_digits)
next
  case True
  let ?ds = "nat_digits (nat (- i))"
  have ds: "?ds \<noteq> []" "list_all is_digit ?ds" "dec_value ?ds = - i"
    using True nat_digits_props [of "nat (- i)"] by simp_all
  have "is_digit (last ?ds)" using ds(1,2) by (simp add: list_all_iff)
  then have "\<not> is_white_space (last (CHR ''-'' # ?ds))"
    using ds(1) by (simp add: digit_not_space)
  moreover have "\<not> is_white_space (hd (CHR ''-'' # ?ds))"
    by (simp add: is_white_space_def)
  ultimately have "trim (CHR ''-'' # ?ds) = CHR ''-'' # ?ds"
    by (intro trim_id) simp_all
  then show ?thesis
    using True ds by (simp add: toString_def BigInt_def decimal_digits_def)
qed

lemma validateAmount_nonneg:
  assumes "validateAmount a p = Inr n"
  shows "0 \<le> n"
proof -
  have pat: "amount_pattern a"
    using assms by (cases "amount_pattern a") (simp_all add: validateAmount_def)
  from validateAmount_digits [OF pat, of p] assms
  have "n = smallest_unit a (nat p)"
    and "list_all is_digit
           (integer_part a @ fractional_tail a @
            replicate (nat p - length (fractional_tail a)) CHR ''0'')"
    by (simp_all split: if_splits)
  then show ?thesis by (simp add: smallest_unit_def dec_value_nonneg)
qed

lemma balance_key_inject [simp]: "balance_key a x = balance_key a y \<longleftrightarrow> x = y"
  by (simp add: balance_key_def)



text \<open>Rules that evaluate the engine on concrete strings and stores.\<close>

lemma nat_digits_small: "n < 10 \<Longrightarrow> nat_digits n = [digit_char n]"
  by (simp add: nat_digits.simps [of n])

lemma nat_digits_large: "10 \<le> n \<Longrightarrow> nat_digits n = nat_digits (n div 10) @ [digit_char (n mod 10)]"
  by (simp add: nat_digits.simps [of n])

lemmas eval_simps = validateAmount_def amount_pattern_def is_digit_def BigInt_digits
  BigInt_toString dec_value_def
  digit_value_def padEnd_def part_def getBalance_def putBalance_def delBalance_def
  balance_key_def amount_or_zero_def scenario_store_def empty_store_def alice_usd_def
  bob_usd_def Let_def numeral_2_eq_2

lemmas toString_eval = toString_def nat_digits_small nat_digits_large digit_char_def

section \<open>Transfers\<close>

text \<open>What a transfer that returns has read and written.\<close>

lemma transfer_success:
  assumes ok: "handleTransferAsset asset src dest amt s = (Inr (), s')"
  obtains a n sb B D s1 where
     "assets s asset = Some a" "accounts s src \<noteq> None" "accounts s dest \<noteq> None"
     "validateAmount amt (precision a) = Inr n"
     "getBalance s asset src = Some sb" "BigInt (amount sb) = Inr B" "n \<le> B"
     "s1 = (if B - n = 0 then delBalance asset src s
           else putBalance \<lparr>asset_id = asset, account_id = src, amount = toString (B - n)\<rparr> s)"
     "amount_or_zero (getBalance s1 asset dest) = Inr D"
     "s' = putBalance \<lparr>asset_id = asset, account_id = dest, amount = toString (D + n)\<rparr> s1"
proof -
  obtain a where a: "assets s asset = Some a"
    using ok by (cases "assets s asset") (simp_all add: handleTransferAsset_def)
  obtain x where x: "accounts s src = Some x"
    using ok a by (cases "accounts s src") (simp_all add: handleTransferAsset_def)
  obtain y where y: "accounts s dest = Some y"
    using ok a x by (cases "accounts s dest") (simp_all add: handleTransferAsset_def)
  obtain n where n: "validateAmount amt (precision a) = Inr n"
    using ok a x y by (cases "validateAmount amt (precision a)") (simp_all add: handleTransferAsset_def)
  obtain sb where sb: "getBalance s asset src = Some sb"
    using ok a x y n by (cases "getBalance s asset src") (simp_all add: handleTransferAsset_def)
  obtain B where B: "BigInt (amount sb) = Inr B"
    using ok a x y n sb by (cases "BigInt (amount sb)") (simp_all add: handleTransferAsset_def)
  have le: "n \<le> B"
    using ok a x y n sb B by (cases "B < n") (simp_all add: handleTransferAsset_def)
  define s1 where "s1 = (if B - n = 0 then delBalance asset src s
           else putBalance \<lparr>asset_id = asset, account_id = src, amount = toString (B - n)\<rparr> s)"
  have rest: "(case amount_or_zero (getBalance s1 asset dest) of
                  Inl e \<Rightarrow> (Inl e, s1)
                | Inr destAmount \<Rightarrow>
                    (Inr (),
                     putBalance \<lparr>asset_id = asset, account_id = dest,
                                 amount = toString (destAmount + n)\<rparr> s1)) = (Inr (), s')"
    using ok a x y n sb B le unfolding s1_def
    by (simp add: handleTransferAsset_def Let_def)
  obtain D where D: "amount_or_zero (getBalance s1 asset dest) = Inr D"
    using rest by (cases "amount_or_zero (getBalance s1 asset dest)") simp_all
  have "s' = putBalance \<lparr>asset_id = asset, account_id = dest, amount = toString (D + n)\<rparr> s1"
    using rest D by simp
  with a x y n sb B le s1_def D show ?thesis using that by blast
qed

lemma balance_value_toString: "balance_value \<lparr>asset_id = a, account_id = x, amount = toString v\<rparr> = v"
  by (simp add: balance_value_def BigInt_toString)

lemma getBalance_put:
  "getBalance (putBalance \<lparr>asset_id = a, account_id = x, amount = m\<rparr> s) a y =
     (if y = x then Some \<lparr>asset_id = a, account_id = x, amount = m\<rparr> else getBalance s a y)"
  by (simp add: getBalance_def putBalance_def)

lemma getBalance_del:
  "getBalance (delBalance a x s) a y = (if y = x then None else getBalance s a y)"
  by (simp add: getBalance_def delBalance_def)

lemma balance_of_put:
  "balance_of (putBalance \<lparr>asset_id = a, account_id = x, amount = toString v\<rparr> s) a y =
     (if y = x then v else balance_of s a y)"
  by (simp add: balance_of_def getBalance_put balance_value_toString)

lemma balance_of_del:
  "balance_of (delBalance a x s) a y = (if y = x then 0 else balance_of s a y)"
  by (simp add: balance_of_def getBalance_del)

lemma holders_put:
  "holders (putBalance \<lparr>asset_id = a, account_id = x, amount = m\<rparr> s) a = insert x (holders s a)"
  by (auto simp: holders_def getBalance_put)

lemma holders_del: "holders (delBalance a x s) a = holders s a - {x}"
  by (auto simp: holders_def getBalance_del)

lemma finite_holders:
  assumes "finite (dom (balances s))"
  shows "finite (holders s a)"
proof -
  have "holders s a = balance_key a -` dom (balances s)"
    by (auto simp: holders_def getBalance_def)
  moreover have "inj (balance_key a)" by (simp add: inj_def)
  ultimately show ?thesis using assms by (simp add: finite_vimageI)
qed

lemma balance_of_outside: "x \<notin> holders s a \<Longrightarrow> balance_of s a x = 0"
  by (simp add: holders_def balance_of_def)

lemma total_supply_superset:
  assumes "finite U" and "holders s a \<subseteq> U"
  shows "total_supply s a = sum (balance_of s a) U"
  unfolding total_supply_def
  by (rule sum.mono_neutral_left) (use assms in \<open>auto simp: balance_of_outside\<close>)

lemma amount_or_zero_balance_of:
  "amount_or_zero (getBalance s a x) = Inr D \<Longrightarrow> balance_of s a x = D"
  by (auto simp: amount_or_zero_def balance_of_def balance_value_def split: option.splits)

lemma sum_move:
  fixes f g :: "'a \<Rightarrow> int"
  assumes "finite U" "x \<in> U" "y \<in> U" "x \<noteq> y"
    and "g x = f x - n" "g y = f y + n" "\<And>z. z \<noteq> x \<Longrightarrow> z \<noteq> y \<Longrightarrow> g z = f z"
  shows "sum g U = sum f U"
proof -
  have "sum g U = g x + (g y + sum g (U - {x} - {y}))"
    using assms by (simp add: sum.remove [of U x] sum.remove [of "U - {x}" y])
  moreover have "sum f U = f x + (f y + sum f (U - {x} - {y}))"
    using assms by (simp add: sum.remove [of U x] sum.remove [of "U - {x}" y])
  moreover have "sum g (U - {x} - {y}) = sum f (U - {x} - {y})"
    by (rule sum.cong) (use assms in auto)
  ultimately show ?thesis using assms by simp
qed

text \<open>
  A \<open>TransferAsset\<close> that returns leaves the sum over the balance keys of the asset it
  transfers as it was, whether or not the source and the destination are the same account.
  The store holds finitely many balance keys.
\<close>

lemma transfer_keeps_own_supply:
  assumes fin: "finite (dom (balances s))"
    and ok: "handleTransferAsset asset src dest amt s = (Inr (), s')"
  shows "total_supply s' asset = total_supply s asset"
proof -
  obtain a n sb B D s1 where
    a: "assets s asset = Some a" and "accounts s src \<noteq> None" and "accounts s dest \<noteq> None"
    and n: "validateAmount amt (precision a) = Inr n"
    and sb: "getBalance s asset src = Some sb" and B: "BigInt (amount sb) = Inr B" and le: "n \<le> B"
    and s1: "s1 = (if B - n = 0 then delBalance asset src s
           else putBalance \<lparr>asset_id = asset, account_id = src, amount = toString (B - n)\<rparr> s)"
    and D: "amount_or_zero (getBalance s1 asset dest) = Inr D"
    and s': "s' = putBalance \<lparr>asset_id = asset, account_id = dest, amount = toString (D + n)\<rparr> s1"
    by (rule transfer_success [OF ok])
  let ?f = "balance_of s asset" and ?g = "balance_of s' asset"
  let ?U = "insert dest (holders s asset)"
  have src_in: "src \<in> holders s asset" using sb by (simp add: holders_def)
  have fsrc: "?f src = B" using sb B by (simp add: balance_of_def balance_value_def)
  have f1: "balance_of s1 asset y = (if y = src then B - n else ?f y)" for y
    using le by (simp add: s1 balance_of_put balance_of_del)
  have Dv: "D = (if dest = src then B - n else ?f dest)"
    using amount_or_zero_balance_of [OF D] f1 by simp
  have g: "?g y = (if y = dest then D + n else if y = src then B - n else ?f y)" for y
    by (simp add: s' balance_of_put f1)
  have h1: "holders s1 asset \<subseteq> holders s asset"
    using src_in by (auto simp: s1 holders_put holders_del)
  have h': "holders s' asset \<subseteq> ?U"
    using h1 by (auto simp: s' holders_put)
  have finU: "finite ?U" using fin by (simp add: finite_holders)
  have "total_supply s' asset = sum ?g ?U" using finU h' by (rule total_supply_superset)
  also have "\<dots> = sum ?f ?U"
  proof (cases "src = dest")
    case True
    then have "?g y = ?f y" for y using g [of y] Dv fsrc by simp
    then show ?thesis by simp
  next
    case False
    show ?thesis
    proof (rule sum_move [where x = src and y = dest and n = n])
      show "finite ?U" by (rule finU)
      show "src \<in> ?U" using src_in by simp
      show "dest \<in> ?U" by simp
      show "src \<noteq> dest" by (rule False)
      show "?g src = ?f src - n" using g [of src] False fsrc by simp
      show "?g dest = ?f dest + n" using g [of dest] False Dv by simp
      show "?g z = ?f z" if "z \<noteq> src" "z \<noteq> dest" for z using g [of z] that by simp
    qed
  qed
  also have "\<dots> = total_supply s asset"
    using finU by (rule total_supply_superset [symmetric]) auto
  finally show ?thesis .
qed

text \<open>The ledger with a slash in its identifiers is built without an error, and holds one
  balance key.\<close>

lemmas slash_eval = slash_store_def slash_setup_def handleRegisterDomain_def
  handleRegisterAccount_def handleRegisterAsset_def handleMintAsset_def putDomain_def
  putAccount_def putAccountRoles_def putAsset_def

lemma slash_setup_runs:
  "fst (execute_instructions 1 ''admin@r'' slash_setup empty_store) = Inr ()"
  by (simp add: slash_eval eval_simps)

lemma slash_balances:
  "balances slash_store =
     [''usd#r/x/y@r'' \<mapsto> \<lparr>asset_id = ''usd#r/x'', account_id = ''y@r'', amount = toString 5\<rparr>]"
  by (simp add: slash_eval eval_simps)

text \<open>
  Claim C7. The claim is that a successful \<open>TransferAsset\<close> leaves the sum of the stored
  balances of every asset unchanged. The key of a balance is the asset id, a slash and the
  account id, and neither id is kept from holding a slash: the balance of the asset
  \<^verbatim>\<open>usd#r/x\<close> held by \<^verbatim>\<open>y@r\<close> and the balance of the asset \<^verbatim>\<open>usd#r\<close> held by \<^verbatim>\<open>x/y@r\<close>
  are the same key. On the ledger built by \<open>slash_setup\<close>, where \<^verbatim>\<open>y@r\<close> holds 5 of
  \<^verbatim>\<open>usd#r/x\<close>, the transfer of 5 of \<^verbatim>\<open>usd#r\<close> from \<^verbatim>\<open>x/y@r\<close> to \<^verbatim>\<open>z@r\<close> returns, and the
  sum of the balances of \<^verbatim>\<open>usd#r/x\<close> goes from 5 to 0.
\<close>

theorem transfer_takes_other_assets_balance:
  "fst (execute_instructions 1 ''admin@r'' slash_setup empty_store) = Inr () \<and>
   getBalance slash_store ''usd#r/x'' ''y@r'' =
     Some \<lparr>asset_id = ''usd#r/x'', account_id = ''y@r'', amount = ''5''\<rparr> \<and>
   total_supply slash_store ''usd#r/x'' = 5 \<and>
   fst (handleTransferAsset ''usd#r'' ''x/y@r'' ''z@r'' ''5'' slash_store) = Inr () \<and>
   getBalance (snd (handleTransferAsset ''usd#r'' ''x/y@r'' ''z@r'' ''5'' slash_store))
     ''usd#r/x'' ''y@r'' = None \<and>
   total_supply (snd (handleTransferAsset ''usd#r'' ''x/y@r'' ''z@r'' ''5'' slash_store))
     ''usd#r/x'' = 0"
proof -
  define s' where "s' = snd (handleTransferAsset ''usd#r'' ''x/y@r'' ''z@r'' ''5'' slash_store)"
  have five: "toString 5 = ''5''" by (simp add: toString_eval)
  have run: "handleTransferAsset ''usd#r'' ''x/y@r'' ''z@r'' ''5'' slash_store = (Inr (), s')"
    unfolding s'_def
    by (simp add: handleTransferAsset_def slash_eval eval_simps)
  have after: "balances s' =
     [''usd#r/z@r'' \<mapsto> \<lparr>asset_id = ''usd#r'', account_id = ''z@r'', amount = toString 5\<rparr>]"
    unfolding s'_def
    by (simp add: handleTransferAsset_def slash_eval eval_simps fun_eq_iff)
  have h0: "holders slash_store ''usd#r/x'' = {''y@r''}"
    by (auto simp add: holders_def getBalance_def balance_key_def slash_balances)
  have h1: "holders s' ''usd#r/x'' = {}"
    by (auto simp add: holders_def getBalance_def balance_key_def after)
  have "total_supply slash_store ''usd#r/x'' = 5"
    by (simp add: total_supply_def h0 balance_of_def balance_value_def getBalance_def
        balance_key_def slash_balances BigInt_toString)
  moreover have "total_supply s' ''usd#r/x'' = 0"
    by (simp add: total_supply_def h1)
  moreover have "getBalance slash_store ''usd#r/x'' ''y@r'' =
     Some \<lparr>asset_id = ''usd#r/x'', account_id = ''y@r'', amount = ''5''\<rparr>"
    by (simp add: getBalance_def balance_key_def slash_balances five)
  moreover have "getBalance s' ''usd#r/x'' ''y@r'' = None"
    by (simp add: getBalance_def balance_key_def after)
  moreover have "fst (handleTransferAsset ''usd#r'' ''x/y@r'' ''z@r'' ''5'' slash_store) = Inr ()"
    by (simp add: run)
  ultimately show ?thesis using slash_setup_runs unfolding s'_def by blast
qed

text \<open>
  Claim C10, as stated, fails: it asks of the source only that its balance is at least the
  amount. Carol has no balance key, so her balance is 0, and 0 is the amount of the
  transfer below; the handler reports that she has no balance. And a source whose record
  holds the amount as the genesis sample writes it, \<^verbatim>\<open>1000.00\<close>, cannot be read by
  \<^verbatim>\<open>BigInt\<close>: the transfer fails with a syntax error.
\<close>

theorem self_transfer_rejected_counterexample:
  "accounts scenario_store ''carol@root'' \<noteq> None \<and>
   map_option precision (assets scenario_store ''usd#root'') = Some 2 \<and>
   validateAmount ''0'' 2 = Inr 0 \<and>
   balance_of scenario_store ''usd#root'' ''carol@root'' = 0 \<and>
   handleTransferAsset ''usd#root'' ''carol@root'' ''carol@root'' ''0'' scenario_store =
     (Inl (NoBalance ''carol@root'' ''usd#root''), scenario_store) \<and>
   map_option amount (getBalance sample_genesis_store ''usd#root'' ''alice@root'') =
     Some ''1000.00'' \<and>
   handleTransferAsset ''usd#root'' ''alice@root'' ''alice@root'' ''1'' sample_genesis_store =
     (Inl SyntaxError, sample_genesis_store)"
  by (simp add: handleTransferAsset_def sample_genesis_store_def eval_simps balance_of_def
      balance_value_def BigInt_def trim_def is_white_space_def decimal_digits_def)

text \<open>
  Claim C10, amended. When the source and the destination of a \<open>TransferAsset\<close> are the
  same account, the asset and the account exist, the amount converts at the asset's
  precision, the account has a stored balance record of the asset, \<^verbatim>\<open>BigInt\<close> reads the
  amount of that record, and the number read is at least the amount of the transfer, then
  the transfer returns, and the account's balance of the asset is the number it was: the
  record holds that number in decimal.
\<close>

theorem self_transfer_keeps_balance:
  assumes a: "assets s asset = Some a" and x: "accounts s acct = Some x"
    and n: "validateAmount amt (precision a) = Inr n"
    and b: "getBalance s asset acct = Some b" and B: "BigInt (amount b) = Inr B"
    and le: "n \<le> B"
  shows "\<exists>s'. handleTransferAsset asset acct acct amt s = (Inr (), s') \<and>
     getBalance s' asset acct =
       Some \<lparr>asset_id = asset, account_id = acct, amount = toString B\<rparr> \<and>
     balance_of s' asset acct = balance_of s asset acct"
proof -
  define s1 where "s1 = (if B - n = 0 then delBalance asset acct s
           else putBalance \<lparr>asset_id = asset, account_id = acct, amount = toString (B - n)\<rparr> s)"
  have D: "amount_or_zero (getBalance s1 asset acct) = Inr (B - n)"
    using le by (simp add: s1_def amount_or_zero_def getBalance_put getBalance_del BigInt_toString)
  have run: "handleTransferAsset asset acct acct amt s =
      (Inr (), putBalance \<lparr>asset_id = asset, account_id = acct, amount = toString B\<rparr> s1)"
    using a x n b B le D unfolding s1_def
    by (simp add: handleTransferAsset_def Let_def)
  moreover have "balance_of s asset acct = B"
    using b B by (simp add: balance_of_def balance_value_def)
  ultimately show ?thesis
    by (simp add: getBalance_put balance_of_put)
qed

theorem self_transfer_keeps_balance_witness:
  "assets scenario_store ''usd#root'' =
     Some \<lparr>asst_id = ''usd#root'', precision = 2, asst_created_at = 1\<rparr> \<and>
   accounts scenario_store ''alice@root'' \<noteq> None \<and>
   validateAmount ''1000'' 2 = Inr 100000 \<and>
   getBalance scenario_store ''usd#root'' ''alice@root'' = Some alice_usd \<and>
   BigInt (amount alice_usd) = Inr 100000 \<and>
   (\<exists>s'. handleTransferAsset ''usd#root'' ''alice@root'' ''alice@root'' ''1000'' scenario_store
            = (Inr (), s') \<and>
         getBalance s' ''usd#root'' ''alice@root'' = Some alice_usd \<and>
         balance_of s' ''usd#root'' ''alice@root'' = 100000)"
proof -
  have a: "assets scenario_store ''usd#root'' =
     Some \<lparr>asst_id = ''usd#root'', precision = 2, asst_created_at = 1\<rparr>"
    by (simp add: scenario_store_def empty_store_def)
  have x: "accounts scenario_store ''alice@root'' =
     Some \<lparr>acct_id = ''alice@root'', public_key = ''ed25519:A'',
           acct_roles = [''user''], acct_created_at = 1\<rparr>"
    by (simp add: scenario_store_def empty_store_def)
  have n: "validateAmount ''1000'' (precision \<lparr>asst_id = ''usd#root'', precision = 2, asst_created_at = 1\<rparr>) = Inr 100000"
    by (simp add: eval_simps)
  have b: "getBalance scenario_store ''usd#root'' ''alice@root'' = Some alice_usd"
    by (simp add: scenario_store_def empty_store_def getBalance_def balance_key_def)
  have B: "BigInt (amount alice_usd) = Inr 100000" by (simp add: eval_simps)
  have ts: "toString 100000 = ''100000''" by (simp add: toString_eval)
  have bo: "balance_of scenario_store ''usd#root'' ''alice@root'' = 100000"
    using b B by (simp add: balance_of_def balance_value_def)
  show ?thesis
    using self_transfer_keeps_balance [OF a x n b B] a x n b B ts bo
    by (simp add: alice_usd_def)
qed


section \<open>Block application: proofs\<close>

text \<open>No instruction touches the records of the chain.\<close>

lemma chain_records_put [simp]:
  "chain_records (putBalance b s) = chain_records s"
  "chain_records (delBalance a x s) = chain_records s"
  "chain_records (putDomain d s) = chain_records s"
  "chain_records (putAccount ac s) = chain_records s"
  "chain_records (putAccountRoles x rs s) = chain_records s"
  "chain_records (putAsset ast s) = chain_records s"
  by (simp_all add: chain_records_def putBalance_def delBalance_def putDomain_def putAccount_def
      putAccountRoles_def putAsset_def)

lemma handleRegisterDomain_chain: "chain_records (snd (handleRegisterDomain now i s)) = chain_records s"
  by (simp add: handleRegisterDomain_def split: option.splits)

lemma handleRegisterAccount_chain: "chain_records (snd (handleRegisterAccount now i pk s)) = chain_records s"
  by (simp add: handleRegisterAccount_def Let_def split: option.splits)

lemma handleRegisterAsset_chain: "chain_records (snd (handleRegisterAsset now i p s)) = chain_records s"
  by (simp add: handleRegisterAsset_def Let_def split: option.splits)

lemma handleMintAsset_chain: "chain_records (snd (handleMintAsset a x m s)) = chain_records s"
  by (simp add: handleMintAsset_def split: option.splits sum.splits)

lemma handleBurnAsset_chain: "chain_records (snd (handleBurnAsset a x m s)) = chain_records s"
  by (simp add: handleBurnAsset_def Let_def split: option.splits sum.splits)

lemma handleTransferAsset_chain: "chain_records (snd (handleTransferAsset a x y m s)) = chain_records s"
  by (simp add: handleTransferAsset_def Let_def split: option.splits sum.splits)

lemma handleGrantRole_chain: "chain_records (snd (handleGrantRole r x s)) = chain_records s"
  by (simp add: handleGrantRole_def split: option.splits)

lemma handleRevokeRole_chain: "chain_records (snd (handleRevokeRole r x s)) = chain_records s"
  by (simp add: handleRevokeRole_def split: option.splits)

lemma execute_chain: "chain_records (snd (execute now i signer s)) = chain_records s"
  by (cases i)
    (simp_all add: handleRegisterDomain_chain handleRegisterAccount_chain
      handleRegisterAsset_chain handleMintAsset_chain handleBurnAsset_chain
      handleTransferAsset_chain handleGrantRole_chain handleRevokeRole_chain)

lemma execute_instructions_chain:
  "chain_records (snd (execute_instructions now signer is s)) = chain_records s"
proof (induction "is" arbitrary: s)
  case Nil
  then show ?case by simp
next
  case (Cons i rest)
  obtain r s' where ex: "execute now i signer s = (r, s')" by (cases "execute now i signer s")
  then have "chain_records s' = chain_records s" using execute_chain [of now i signer s] by simp
  with Cons ex show ?case by (cases r) simp_all
qed


lemmas block_eval = applyBlock_def spec_applyBlock_def batch_def example_block_def example_tx_def
  mint_block_def failing_block_def failing_tx_def later_tx_def handleMintAsset_def handleBurnAsset_def
  example_block_hash_def example_tx_hash_def example_signature_def

text \<open>
  Claim C1. The claim is that a block's effects are committed as one batch, so that a
  failed commit leaves nothing observable. Here the block holds one transaction that
  mints 10.00 to Alice and the store refuses the batch: \<open>applyBlock\<close> ends in the storage
  error, and Alice's balance has grown all the same, because the engine wrote it to the
  store before the batch was assembled. The applier of the specification leaves the store
  as it was.
\<close>

theorem applyBlock_failed_commit_keeps_writes:
  "fst (applyBlock example_block_hash example_tx_hash False 9 mint_block scenario_store) =
     Inl StorageError \<and>
   balance_of scenario_store ''usd#root'' ''alice@root'' = 100000 \<and>
   balance_of (snd (applyBlock example_block_hash example_tx_hash False 9 mint_block scenario_store))
     ''usd#root'' ''alice@root'' = 101000 \<and>
   snd (spec_applyBlock example_block_hash example_tx_hash False 9 mint_block scenario_store) =
     scenario_store"
  by (simp add: block_eval eval_simps balance_of_def balance_value_def)

text \<open>
  Claim C2, as stated, fails. In the block below the first transaction mints to Alice and
  then fails at its second instruction, and the second transaction would mint to Carol.
  \<open>applyBlock\<close> ends in the first transaction's error: Alice keeps the minted amount and
  Carol receives nothing, where the specification's applier restores Alice's balance and
  credits Carol.
\<close>

theorem applyBlock_rollback_counterexample:
  "fst (applyBlock example_block_hash example_tx_hash True 9 failing_block scenario_store) =
     Inl (InsufficientBalance 50000 999900) \<and>
   balance_of (snd (applyBlock example_block_hash example_tx_hash True 9 failing_block scenario_store))
     ''usd#root'' ''alice@root'' = 101000 \<and>
   balance_of (snd (applyBlock example_block_hash example_tx_hash True 9 failing_block scenario_store))
     ''usd#root'' ''carol@root'' = 0 \<and>
   fst (spec_applyBlock example_block_hash example_tx_hash True 9 failing_block scenario_store) =
     Inr () \<and>
   balance_of (snd (spec_applyBlock example_block_hash example_tx_hash True 9 failing_block scenario_store))
     ''usd#root'' ''alice@root'' = 100000 \<and>
   balance_of (snd (spec_applyBlock example_block_hash example_tx_hash True 9 failing_block scenario_store))
     ''usd#root'' ''carol@root'' = 100"
  by (simp add: block_eval eval_simps balance_of_def balance_value_def)


lemma process_transactions_run:
  "process_transactions th now ts ops s =
     (case run_transactions now ts s of
        (Inl e, s') \<Rightarrow> (Inl e, s')
      | (Inr u, s') \<Rightarrow> (Inr (ops @ map (\<lambda>t. PutTxOp (th t) t) ts), s'))"
proof (induction ts arbitrary: ops s)
  case Nil
  then show ?case by simp
next
  case (Cons tx rest)
  show ?case
  proof (cases "execute_instructions now (signer_id (body tx)) (instructions (body tx)) s")
    case (Pair r s')
    then show ?thesis using Cons by (cases r) (simp_all add: Let_def split: prod.splits sum.splits)
  qed
qed

lemma run_transactions_append:
  "run_transactions now (xs @ ys) s =
     (case run_transactions now xs s of
        (Inl e, s') \<Rightarrow> (Inl e, s')
      | (Inr u, s') \<Rightarrow> run_transactions now ys s')"
proof (induction xs arbitrary: s)
  case Nil
  then show ?case by simp
next
  case (Cons tx rest)
  show ?case
  proof (cases "execute_instructions now (signer_id (body tx)) (instructions (body tx)) s")
    case (Pair r s')
    then show ?thesis using Cons by (cases r) simp_all
  qed
qed

lemma run_transactions_chain:
  "chain_records (snd (run_transactions now ts s)) = chain_records s"
proof (induction ts arbitrary: s)
  case Nil
  then show ?case by simp
next
  case (Cons tx rest)
  obtain r s' where ex:
    "execute_instructions now (signer_id (body tx)) (instructions (body tx)) s = (r, s')"
    by (cases "execute_instructions now (signer_id (body tx)) (instructions (body tx)) s")
  then have "chain_records s' = chain_records s"
    using execute_instructions_chain [of now "signer_id (body tx)" "instructions (body tx)" s]
    by simp
  with Cons ex show ?case by (cases r) simp_all
qed

text \<open>The loop over the instructions of a transaction ends at the first instruction that
  fails: the error is that instruction's, the store is as that instruction left it, and
  the instructions after it have no part in the outcome.\<close>

lemma execute_instructions_append:
  "execute_instructions now signer (xs @ ys) s =
     (case execute_instructions now signer xs s of
        (Inl e, s') \<Rightarrow> (Inl e, s')
      | (Inr u, s') \<Rightarrow> execute_instructions now signer ys s')"
proof (induction xs arbitrary: s)
  case Nil
  then show ?case by simp
next
  case (Cons i rest)
  show ?case
  proof (cases "execute now i signer s")
    case (Pair r s')
    then show ?thesis using Cons by (cases r) simp_all
  qed
qed

lemma execute_instructions_stops:
  assumes "fst (execute_instructions now signer earlier s) = Inr ()"
    and "fst (execute now i signer (snd (execute_instructions now signer earlier s))) = Inl e"
  shows "execute_instructions now signer (earlier @ i # later) s =
     (Inl e, snd (execute now i signer (snd (execute_instructions now signer earlier s))))"
proof -
  obtain s1 where s1: "execute_instructions now signer earlier s = (Inr (), s1)"
    using assms(1) by (cases "execute_instructions now signer earlier s") simp
  obtain s2 where s2: "execute now i signer s1 = (Inl e, s2)"
    using assms(2) s1 by (cases "execute now i signer s1") simp
  show ?thesis by (simp add: execute_instructions_append s1 s2)
qed

lemma run_transactions_fails_at:
  assumes "fst (run_transactions now pre s) = Inr ()"
    and "execute_instructions now (signer_id (body tx)) (instructions (body tx))
           (snd (run_transactions now pre s)) = (Inl e, s2)"
  shows "run_transactions now (pre @ tx # post) s = (Inl e, s2)"
proof -
  obtain s1 where s1: "run_transactions now pre s = (Inr (), s1)"
    using assms(1) by (cases "run_transactions now pre s") simp
  show ?thesis using assms(2) by (simp add: run_transactions_append s1)
qed

lemma applyBlock_run:
  "applyBlock bh th commits now b s =
     (case run_transactions now (transactions b) s of
        (Inl e, s') \<Rightarrow> (Inl e, s')
      | (Inr u, s') \<Rightarrow>
          batch commits
            ([PutBlockOp b, PutBlockByHashOp (bh (header b)) (height (header b))] @
             map (\<lambda>t. PutTxOp (th t) t) (transactions b) @
             [PutLastHeightOp (height (header b))]) s')"
  by (simp add: applyBlock_def process_transactions_run split: prod.splits sum.splits)

text \<open>
  Claim C2, amended. When the transactions before \<open>tx\<close> run without error, the
  instructions of \<open>tx\<close> before \<open>i\<close> run without error and \<open>i\<close> fails with \<open>e\<close>, applying
  the block fails with \<open>e\<close>; the store it leaves is the store as \<open>i\<close> left it; no block,
  hash index entry, transaction record or \<^verbatim>\<open>last_height\<close> is written; and the outcome,
  error and store, is that of the block cut off after \<open>i\<close>, whatever the store would do
  with the batch: no later instruction of \<open>tx\<close> and no later transaction is executed.
\<close>

theorem applyBlock_aborts_at_failure:
  assumes "transactions b = pre @ tx # post"
    and "instructions (body tx) = earlier @ i # later"
    and "fst (run_transactions now pre s) = Inr ()"
    and "fst (execute_instructions now (signer_id (body tx)) earlier
                (snd (run_transactions now pre s))) = Inr ()"
    and "fst (execute now i (signer_id (body tx))
                (snd (execute_instructions now (signer_id (body tx)) earlier
                        (snd (run_transactions now pre s))))) = Inl e"
  shows "fst (applyBlock bh th commits now b s) = Inl e \<and>
     snd (applyBlock bh th commits now b s) =
       snd (execute now i (signer_id (body tx))
              (snd (execute_instructions now (signer_id (body tx)) earlier
                      (snd (run_transactions now pre s))))) \<and>
     chain_records (snd (applyBlock bh th commits now b s)) = chain_records s \<and>
     applyBlock bh th commits now b s =
       applyBlock bh th commits' now
         (b\<lparr>transactions := pre @ [tx\<lparr>body := (body tx)\<lparr>instructions := earlier @ [i]\<rparr>\<rparr>]\<rparr>) s"
proof -
  let ?signer = "signer_id (body tx)"
  let ?s1 = "snd (run_transactions now pre s)"
  let ?s3 = "snd (execute now i ?signer (snd (execute_instructions now ?signer earlier ?s1)))"
  let ?cut = "tx\<lparr>body := (body tx)\<lparr>instructions := earlier @ [i]\<rparr>\<rparr>"
  have whole: "execute_instructions now ?signer (instructions (body tx)) ?s1 = (Inl e, ?s3)"
    unfolding assms(2) using assms(4,5) by (rule execute_instructions_stops)
  have part: "execute_instructions now (signer_id (body ?cut)) (instructions (body ?cut)) ?s1 =
      (Inl e, ?s3)"
    using execute_instructions_stops [OF assms(4,5), of "[]"] by simp
  have full: "run_transactions now (transactions b) s = (Inl e, ?s3)"
    unfolding assms(1) using assms(3) whole by (rule run_transactions_fails_at)
  have short: "run_transactions now (pre @ [?cut]) s = (Inl e, ?s3)"
    using assms(3) part by (rule run_transactions_fails_at)
  have res: "applyBlock bh th commits now b s = (Inl e, ?s3)"
    by (simp add: applyBlock_run full)
  have res': "applyBlock bh th commits' now (b\<lparr>transactions := pre @ [?cut]\<rparr>) s = (Inl e, ?s3)"
    by (simp add: applyBlock_run short)
  have "chain_records ?s3 = chain_records s"
    using run_transactions_chain [of now "transactions b" s] full by simp
  then show ?thesis by (simp add: res res')
qed

theorem applyBlock_aborts_at_failure_witness:
  "transactions failing_block = [] @ failing_tx # [later_tx] \<and>
   instructions (body failing_tx) =
     [MintAsset ''usd#root'' ''alice@root'' ''10''] @
     BurnAsset ''usd#root'' ''bob@root'' ''9999'' # [MintAsset ''usd#root'' ''carol@root'' ''2''] \<and>
   fst (run_transactions 9 [] scenario_store) = Inr () \<and>
   fst (execute_instructions 9 (signer_id (body failing_tx))
          [MintAsset ''usd#root'' ''alice@root'' ''10'']
          (snd (run_transactions 9 [] scenario_store))) = Inr () \<and>
   fst (execute 9 (BurnAsset ''usd#root'' ''bob@root'' ''9999'') (signer_id (body failing_tx))
          (snd (execute_instructions 9 (signer_id (body failing_tx))
                  [MintAsset ''usd#root'' ''alice@root'' ''10'']
                  (snd (run_transactions 9 [] scenario_store))))) =
     Inl (InsufficientBalance 50000 999900) \<and>
   fst (applyBlock example_block_hash example_tx_hash True 9 failing_block scenario_store) =
     Inl (InsufficientBalance 50000 999900) \<and>
   snd (applyBlock example_block_hash example_tx_hash True 9 failing_block scenario_store) =
     snd (execute 9 (BurnAsset ''usd#root'' ''bob@root'' ''9999'') (signer_id (body failing_tx))
            (snd (execute_instructions 9 (signer_id (body failing_tx))
                    [MintAsset ''usd#root'' ''alice@root'' ''10'']
                    (snd (run_transactions 9 [] scenario_store))))) \<and>
   chain_records
     (snd (applyBlock example_block_hash example_tx_hash True 9 failing_block scenario_store)) =
     chain_records scenario_store \<and>
   applyBlock example_block_hash example_tx_hash True 9 failing_block scenario_store =
     applyBlock example_block_hash example_tx_hash False 9
       (failing_block
          \<lparr>transactions :=
             [] @ [failing_tx\<lparr>body := (body failing_tx)
                     \<lparr>instructions :=
                        [MintAsset ''usd#root'' ''alice@root'' ''10''] @
                        [BurnAsset ''usd#root'' ''bob@root'' ''9999'']\<rparr>\<rparr>]\<rparr>)
       scenario_store"
proof -
  have h1: "transactions failing_block = [] @ failing_tx # [later_tx]"
    by (simp add: failing_block_def example_block_def)
  have h2: "instructions (body failing_tx) =
     [MintAsset ''usd#root'' ''alice@root'' ''10''] @
     BurnAsset ''usd#root'' ''bob@root'' ''9999'' # [MintAsset ''usd#root'' ''carol@root'' ''2'']"
    by (simp add: failing_tx_def example_tx_def)
  have h3: "fst (run_transactions 9 [] scenario_store) = Inr ()" by simp
  have h4: "fst (execute_instructions 9 (signer_id (body failing_tx))
          [MintAsset ''usd#root'' ''alice@root'' ''10'']
          (snd (run_transactions 9 [] scenario_store))) = Inr ()"
    by (simp add: block_eval eval_simps)
  have h5: "fst (execute 9 (BurnAsset ''usd#root'' ''bob@root'' ''9999'') (signer_id (body failing_tx))
          (snd (execute_instructions 9 (signer_id (body failing_tx))
                  [MintAsset ''usd#root'' ''alice@root'' ''10'']
                  (snd (run_transactions 9 [] scenario_store))))) =
     Inl (InsufficientBalance 50000 999900)"
    by (simp add: block_eval eval_simps)
  note r = applyBlock_aborts_at_failure
    [OF h1 h2 h3 h4 h5, of example_block_hash example_tx_hash True False]
  show ?thesis
    by (intro conjI h1 h2 h3 h4 h5 r [THEN conjunct1] r [THEN conjunct2, THEN conjunct1]
        r [THEN conjunct2, THEN conjunct2, THEN conjunct1]
        r [THEN conjunct2, THEN conjunct2, THEN conjunct2])
qed

section \<open>Zero balances\<close>

text \<open>A burn that takes the whole balance removes the key.\<close>

lemma burn_to_zero_removes_key:
  assumes "assets s asset = Some a" and "accounts s acct = Some x"
    and "validateAmount amt (precision a) = Inr n"
    and "getBalance s asset acct = Some b" and "BigInt (amount b) = Inr n"
  shows "handleBurnAsset asset acct amt s = (Inr (), delBalance asset acct s)"
    and "getBalance (delBalance asset acct s) asset acct = None"
  using assms by (simp_all add: handleBurnAsset_def getBalance_del)

text \<open>
  Claim C8. The claim is that no stored balance holds the amount zero after an
  instruction. Carol has no balance key; minting the amount \<^verbatim>\<open>0\<close> to her returns and
  leaves a balance record whose amount is \<^verbatim>\<open>0\<close>. The mint handler, unlike the burn
  handler, writes the sum without testing it for zero.
\<close>

theorem mint_zero_stores_zero:
  "handleMintAsset ''usd#root'' ''carol@root'' ''0'' scenario_store =
     (Inr (), putBalance \<lparr>asset_id = ''usd#root'', account_id = ''carol@root'', amount = ''0''\<rparr>
                scenario_store) \<and>
   getBalance scenario_store ''usd#root'' ''carol@root'' = None \<and>
   getBalance (snd (handleMintAsset ''usd#root'' ''carol@root'' ''0'' scenario_store))
     ''usd#root'' ''carol@root'' =
     Some \<lparr>asset_id = ''usd#root'', account_id = ''carol@root'', amount = ''0''\<rparr>"
proof -
  have ts: "toString 0 = ''0''" by (simp add: toString_eval)
  have run: "handleMintAsset ''usd#root'' ''carol@root'' ''0'' scenario_store =
     (Inr (), putBalance \<lparr>asset_id = ''usd#root'', account_id = ''carol@root'', amount = toString 0\<rparr>
                scenario_store)"
    by (simp add: handleMintAsset_def eval_simps)
  show ?thesis unfolding run ts by (simp add: eval_simps)
qed


section \<open>Genesis bootstrap: proofs\<close>

lemma validateGenesisConfig_admin:
  assumes "validateGenesisConfig c = Inr u"
  shows "hasAdminRole (genesis c) \<and> hasAdminAccount (genesis c)"
  using assms unfolding validateGenesisConfig_def Let_def
  by (simp split: if_splits sum.splits)

text \<open>
  Claim C9, amended. The bootstrap fails, and leaves the store as it was, for every
  configuration with no role named \<^verbatim>\<open>admin\<close> and for every configuration in which no
  account holds the role \<^verbatim>\<open>admin\<close>.
\<close>

theorem bootstrap_rejects_without_admin:
  assumes "\<not> hasAdminRole (genesis c) \<or> \<not> hasAdminAccount (genesis c)"
  shows "\<exists>e. bootstrap headerHash sign commits now c s = (Inl e, s)"
proof (cases "validateGenesisConfig c")
  case (Inl e)
  then show ?thesis by (simp add: bootstrap_def)
next
  case (Inr u)
  then show ?thesis using assms validateGenesisConfig_admin by blast
qed

lemmas genesis_eval = bootstrap_def validateGenesisConfig_def example_genesis_def
  hasAdminRole_def hasAdminAccount_def has_wildcard_admin_role_def part_def Let_def
  createGenesisBlock_def example_sign_def batch_def

theorem bootstrap_rejects_without_admin_witness:
  "\<not> hasAdminRole (genesis no_admin_role_genesis) \<and>
   (\<exists>e. bootstrap example_block_hash example_sign True 5 no_admin_role_genesis empty_store =
          (Inl e, empty_store)) \<and>
   \<not> hasAdminAccount (genesis no_admin_account_genesis) \<and>
   (\<exists>e. bootstrap example_block_hash example_sign True 5 no_admin_account_genesis empty_store =
          (Inl e, empty_store))"
proof -
  have h1: "\<not> hasAdminRole (genesis no_admin_role_genesis)"
    by (simp add: hasAdminRole_def no_admin_role_genesis_def example_genesis_def)
  have h2: "\<not> hasAdminAccount (genesis no_admin_account_genesis)"
    by (simp add: hasAdminAccount_def no_admin_account_genesis_def example_genesis_def)
  from h1 have d1: "\<not> hasAdminRole (genesis no_admin_role_genesis) \<or>
      \<not> hasAdminAccount (genesis no_admin_role_genesis)" by simp
  from h2 have d2: "\<not> hasAdminRole (genesis no_admin_account_genesis) \<or>
      \<not> hasAdminAccount (genesis no_admin_account_genesis)" by simp
  show ?thesis
    using h1 h2
      bootstrap_rejects_without_admin [OF d1, of example_block_hash example_sign True 5 empty_store]
      bootstrap_rejects_without_admin [OF d2, of example_block_hash example_sign True 5 empty_store]
    by blast
qed

text \<open>
  Claim C9, as stated, fails: the validation looks for a role named \<^verbatim>\<open>admin\<close> and never
  at its permissions. The configuration below has the role \<^verbatim>\<open>admin\<close> with no permission
  at all; the bootstrap accepts it and commits block 1.
\<close>

theorem bootstrap_accepts_admin_without_wildcard:
  "\<not> has_wildcard_admin_role (genesis (example_genesis [])) \<and>
   validateGenesisConfig (example_genesis []) = Inr () \<and>
   fst (bootstrap example_block_hash example_sign True 5 (example_genesis []) empty_store) =
     Inr (createGenesisBlock example_sign 5) \<and>
   last_height (snd (bootstrap example_block_hash example_sign True 5 (example_genesis [])
                       empty_store)) = Some 1"
  by (simp add: genesis_eval genesis_operations_def account_operations_def)


section \<open>The nonce check: proofs\<close>

text \<open>
  The check itself is strict: it passes exactly when the nonce of the body is greater than
  the signer's last seen nonce, and otherwise reports \<^verbatim>\<open>INVALID_NONCE\<close>. The last seen
  nonce of every signer is 0 in the initial map; once recorded for a signer it is the value
  read for that signer, and recording it leaves the other signers' values as they were.
\<close>

lemma validateNonce_iff:
  "(validateNonce lastNonces b = None \<longleftrightarrow> nonce b > last_seen_nonce lastNonces (signer_id b)) \<and>
   map_option code (validateNonce lastNonces b) =
     (if nonce b > last_seen_nonce lastNonces (signer_id b) then None else Some ''INVALID_NONCE'') \<and>
   last_seen_nonce initial_lastNonces signer = 0 \<and>
   last_seen_nonce (updateLastNonce signer n lastNonces) signer' =
     (if signer' = signer then n else last_seen_nonce lastNonces signer')"
  by (simp add: validateNonce_def Let_def last_seen_nonce_def initial_lastNonces_def
      updateLastNonce_def)

text \<open>Applying a block, whatever its outcome, leaves the validator's map as it was.\<close>

lemma node_applyBlock_keeps_lastNonces:
  "transactionValidator (snd (node_applyBlock bh th commits now b n)) = transactionValidator n"
  by (simp add: node_applyBlock_def split: prod.splits)

text \<open>
  Claim C5. The claim is that a transaction passes the nonce check only if its nonce is
  greater than the last nonce processed for its signer, that value being kept across
  blocks. The comment on \<^verbatim>\<open>updateLastNonce\<close> says it is to be called after a transaction
  has been processed, and nothing calls it. On a node that has validated nothing yet,
  Alice's transfer with nonce 1 passes the check and the block that holds it is applied:
  the transaction is stored and Alice's balance goes from 1000.00 to 900.00. The node's
  last nonce for Alice is still 0, the same transaction passes the check again, and a
  second block that holds it is applied and takes another 100.00 from her.
\<close>

theorem applied_nonce_passes_again:
  "node_validateNonce fresh_node transfer_tx = None \<and>
   fst (node_applyBlock example_block_hash example_tx_hash True 9 transfer_block fresh_node) =
     Inr () \<and>
   txs (stateStore (snd (node_applyBlock example_block_hash example_tx_hash True 9
          transfer_block fresh_node))) (example_tx_hash transfer_tx) = Some transfer_tx \<and>
   balance_of (stateStore fresh_node) ''usd#root'' ''alice@root'' = 100000 \<and>
   balance_of (stateStore (snd (node_applyBlock example_block_hash example_tx_hash True 9
          transfer_block fresh_node))) ''usd#root'' ''alice@root'' = 90000 \<and>
   last_seen_nonce (transactionValidator (snd (node_applyBlock example_block_hash
          example_tx_hash True 9 transfer_block fresh_node))) ''alice@root'' = 0 \<and>
   node_validateNonce (snd (node_applyBlock example_block_hash example_tx_hash True 9
          transfer_block fresh_node)) transfer_tx = None \<and>
   fst (node_applyBlock example_block_hash example_tx_hash True 10 replay_block
          (snd (node_applyBlock example_block_hash example_tx_hash True 9
             transfer_block fresh_node))) = Inr () \<and>
   balance_of (stateStore (snd (node_applyBlock example_block_hash example_tx_hash True 10
          replay_block (snd (node_applyBlock example_block_hash example_tx_hash True 9
             transfer_block fresh_node))))) ''usd#root'' ''alice@root'' = 80000"
  by (simp add: node_validateNonce_def validateNonce_def last_seen_nonce_def
      initial_lastNonces_def node_applyBlock_def fresh_node_def transfer_block_def
      replay_block_def transfer_tx_def handleTransferAsset_def block_eval eval_simps
      balance_of_def balance_value_def)

section \<open>The prevote quorum: proofs\<close>

lemma getQuorumSize_4: "getQuorumSize 4 = 3"
  by (simp add: getQuorumSize_def)

text \<open>
  Claim C4. The claim is that the engine moves to the precommit step with a nil precommit
  exactly when a quorum of the recorded prevotes are nil. Among four validators the
  quorum is 3; the node below holds one nil prevote and two prevotes for a block, and
  \<open>checkPrevoteQuorum\<close> moves it to the precommit step with a nil precommit: called
  without a block hash, \<open>hasQuorum\<close> counts every vote.
\<close>

theorem nil_precommit_without_nil_quorum:
  "step split_prevotes = PreVote \<and>
   validBlock split_prevotes = None \<and>
   getQuorumSize 4 = 3 \<and>
   nil_votes (prevotes split_prevotes) = 1 \<and>
   checkPrevoteQuorum headerHash 4 split_prevotes =
     (split_prevotes\<lparr>step := PreCommit\<rparr>, Some None)"
  by (simp add: checkPrevoteQuorum_def check_nil_quorum_def hasQuorum_def getQuorumSize_def
      nil_votes_def split_prevotes_def own_nil_prevote_def example_vote_def)

text \<open>The nil branch is taken exactly when the number of all recorded prevotes reaches
  the quorum.\<close>

lemma check_nil_quorum_iff:
  "check_nil_quorum n st = (st\<lparr>step := PreCommit\<rparr>, Some None) \<longleftrightarrow>
     int (length (prevotes st)) \<ge> getQuorumSize n"
  by (simp add: check_nil_quorum_def hasQuorum_def)


text \<open>The node arrives there by recording the two prevotes for the block: the first
  changes nothing else, the second triggers the nil precommit.\<close>

lemma split_prevotes_reached:
  "handlePrevote headerHash (\<lambda>m. True) four_validators own_nil_prevote (example_prevote ''node2'') =
     (own_nil_prevote
        \<lparr>prevotes := [example_vote ''node1'' None, example_vote ''node2'' (Some ''H'')]\<rparr>,
      None)"
  "handlePrevote headerHash (\<lambda>m. True) four_validators
     (own_nil_prevote
        \<lparr>prevotes := [example_vote ''node1'' None, example_vote ''node2'' (Some ''H'')]\<rparr>)
     (example_prevote ''node3'') =
     (split_prevotes\<lparr>step := PreCommit\<rparr>, Some None)"
  by (simp_all add: handlePrevote_def checkPrevoteQuorum_def check_nil_quorum_def hasQuorum_def
      getQuorumSize_def split_prevotes_def own_nil_prevote_def example_vote_def
      example_prevote_def four_validators_def)

section \<open>Canonical serialization: proofs\<close>

lemma lookup_keys:
  "map fst (List.map_filter (\<lambda>P. map_option (Pair P) (m P)) K) = filter (\<lambda>P. m P \<noteq> None) K"
  by (induction K) (auto simp: List.map_filter_simps split: option.splits)

lemma lookup_member:
  "(k, t) \<in> set (List.map_filter (\<lambda>P. map_option (Pair P) (m P)) K) \<Longrightarrow> m k = Some t"
  by (induction K) (auto simp: List.map_filter_simps split: option.splits)

lemma select_object:
  "select K (JObject kvs) =
     JObject (List.map_filter (\<lambda>P. map_option (Pair P) (map_option (select K) (map_of kvs P))) K)"
  by (simp add: map_of_map)

lemma select_member:
  assumes "(k, t) \<in> set (List.map_filter
             (\<lambda>P. map_option (Pair P) (map_option (select K) (map_of kvs P))) K)"
  obtains v where "map_of kvs k = Some v" "(k, v) \<in> set kvs" "t = select K v"
proof -
  from lookup_member [OF assms] obtain v where "map_of kvs k = Some v" "t = select K v"
    by auto
  then show ?thesis using that map_of_SomeD by fastforce
qed

lemma select_keys_ascending:
  assumes "sorted_wrt (<) K"
  shows "keys_ascending (select K v)"
  using assms
proof (induction K v rule: select.induct)
  case (1 K xs)
  then show ?case by (simp add: list_all_iff)
next
  case (2 K kvs)
  let ?out = "List.map_filter
     (\<lambda>P. map_option (Pair P) (map_option (select K) (map_of kvs P))) K"
  have "sorted_wrt (<) (map fst ?out)"
    unfolding lookup_keys using 2(2) by (rule sorted_wrt_filter)
  moreover have "keys_ascending t" if "(k, t) \<in> set ?out" for k t
  proof -
    from that obtain v where "(k, v) \<in> set kvs" "t = select K v" by (rule select_member)
    then show ?thesis using 2 by blast
  qed
  ultimately show ?case
    unfolding select_object by (auto simp: list_all_iff)
qed simp_all

lemma select_reduct:
  assumes "distinct K"
  shows "reduct v (select K v)"
  using assms
proof (induction K v rule: select.induct)
  case (1 K xs)
  then have "list_all2 reduct xs (map (select K) xs)"
    by (simp add: list_all2_map2 list.rel_refl_strong)
  then show ?case by (simp add: reduct_array)
next
  case (2 K kvs)
  let ?out = "List.map_filter
     (\<lambda>P. map_option (Pair P) (map_option (select K) (map_of kvs P))) K"
  have "distinct (map fst ?out)"
    unfolding lookup_keys using 2(2) by simp
  moreover have "\<exists>v. map_of kvs k = Some v \<and> reduct v t" if "(k, t) \<in> set ?out" for k t
  proof -
    from that obtain v where "map_of kvs k = Some v" "(k, v) \<in> set kvs" "t = select K v"
      by (rule select_member)
    then show ?thesis using 2 by blast
  qed
  ultimately show ?case
    unfolding select_object by (intro reduct_object) auto
qed (simp_all add: reduct.intros)

lemma map_eq_of_list_all2:
  "list_all2 (\<lambda>x y. f x = f y) xs ys \<Longrightarrow> map f xs = map f ys"
  by (induction rule: list_all2_induct) simp_all

lemma same_object_select:
  assumes "same_object v w"
  shows "select K v = select K w"
  using assms
proof (induction rule: same_object.induct)
  case (same_array xs ys)
  then have "list_all2 (\<lambda>x y. select K x = select K y) xs ys"
    by (simp add: list_all2_conv_all_nth)
  then show ?case by (simp add: map_eq_of_list_all2)
next
  case (same_members kvs kvs')
  have "map_option (select K) (map_of kvs P) = map_option (select K) (map_of kvs' P)" for P
  proof (cases "P \<in> set (map fst kvs)")
    case True
    then show ?thesis using same_members(2) by fastforce
  next
    case False
    then have "map_of kvs P = None" "map_of kvs' P = None"
      using same_members(1) by (simp_all add: map_of_eq_None_iff)
    then show ?thesis by simp
  qed
  then show ?case unfolding select_object by simp
qed simp_all

lemma property_list_sorted: "sorted_wrt (<) (property_list keys)"
  by (simp add: property_list_def strict_sorted_iff)

lemma property_list_set_eq:
  assumes "set ks = set ks'"
  shows "property_list ks = property_list ks'"
  unfolding property_list_def
  by (rule sorted_distinct_set_unique) (simp_all add: assms)

lemma same_object_keys:
  assumes "same_object v w"
  shows "(\<exists>e. object_keys v = Inl e \<and> object_keys w = Inl e) \<or>
         (\<exists>ks ks'. object_keys v = Inr ks \<and> object_keys w = Inr ks' \<and>
                   property_list ks = property_list ks')"
  using assms
proof (cases rule: same_object.cases)
  case (same_array xs ys)
  then show ?thesis by (auto simp: object_keys_def dest: list_all2_lengthD)
next
  case (same_members kvs kvs')
  then have "property_list (map fst kvs) = property_list (map fst kvs')"
    by (intro property_list_set_eq)
  with same_members show ?thesis by (simp add: object_keys_def)
qed (simp_all add: object_keys_def)

lemma same_object_canonical:
  assumes "same_object v w"
  shows "canonicalJsonStringify v = canonicalJsonStringify w"
  using same_object_keys [OF assms] same_object_select [OF assms]
  by (auto simp: canonicalJsonStringify_def)

text \<open>
  What the serialization does achieve: for every object, the result is the text of a value
  in which the keys of every object, at every nesting depth, are in strictly ascending
  order; that value is the object with members left out and its arrays kept element by
  element; and two objects that cannot be told apart by reading them have the same
  serialization.
\<close>

lemma canonical_value_properties:
  "canonicalJsonStringify (JObject kvs) = Inr (render (canonical_value (JObject kvs))) \<and>
   keys_ascending (canonical_value (JObject kvs)) \<and>
   reduct (JObject kvs) (canonical_value (JObject kvs)) \<and>
   (same_object (JObject kvs) w \<longrightarrow>
      canonicalJsonStringify (JObject kvs) = canonicalJsonStringify w)"
proof -
  have cv: "canonical_value (JObject kvs) = select (property_list (map fst kvs)) (JObject kvs)"
    by (simp add: canonical_value_def object_keys_def)
  have "distinct (property_list (map fst kvs))" by (simp add: property_list_def)
  then have "reduct (JObject kvs) (canonical_value (JObject kvs))"
    unfolding cv by (rule select_reduct)
  moreover have "keys_ascending (canonical_value (JObject kvs))"
    unfolding cv using property_list_sorted by (rule select_keys_ascending)
  moreover have "canonicalJsonStringify (JObject kvs) = Inr (render (canonical_value (JObject kvs)))"
    unfolding cv by (simp add: canonicalJsonStringify_def object_keys_def)
  ultimately show ?thesis using same_object_canonical by blast
qed

text \<open>The property list of a transaction body holds the five names of its fields, and no
  field of an instruction is among them: every instruction is written as the empty
  object.\<close>

lemma body_property_list:
  "property_list [''chain_id'', ''signer_id'', ''nonce'', ''created_at'', ''instructions''] =
     [''chain_id'', ''created_at'', ''instructions'', ''nonce'', ''signer_id'']"
  by (simp add: property_list_def)

lemma select_instruction_json:
  "select [''chain_id'', ''created_at'', ''instructions'', ''nonce'', ''signer_id'']
     (instruction_json i) = JObject []"
  by (cases i) (simp_all add: List.map_filter_simps)

lemma canonical_value_body_json:
  "canonical_value (body_json b) =
     JObject [(''chain_id'', JString (chain_id b)), (''created_at'', JNumber (created_at b)),
              (''instructions'', JArray (replicate (length (instructions b)) (JObject []))),
              (''nonce'', JNumber (nonce b)), (''signer_id'', JString (signer_id b))]"
  by (simp add: canonical_value_def body_json_def object_keys_def body_property_list
      List.map_filter_simps select_instruction_json map_replicate_const o_def)

text \<open>So the text that is signed for a transaction body is the same for every list of
  instructions of the same length.\<close>

lemma canonicalJsonStringify_body_json:
  "canonicalJsonStringify (body_json b) = Inr (render (canonical_value (body_json b)))"
  by (simp add: canonicalJsonStringify_def canonical_value_def body_json_def object_keys_def)

lemma canonicalJsonStringify_ignores_instructions:
  assumes "length is' = length is"
  shows "canonicalJsonStringify (body_json (b\<lparr>instructions := is'\<rparr>)) =
         canonicalJsonStringify (body_json (b\<lparr>instructions := is\<rparr>))"
  using assms by (simp add: canonicalJsonStringify_body_json canonical_value_body_json)

text \<open>
  Claim C3. The claim is that the canonical serialization is a deterministic text of the
  object with its keys sorted, arrays kept in their order, fit for hashing and signing.
  The replacer \<^verbatim>\<open>Object.keys(obj).sort()\<close> is an array, and \<^verbatim>\<open>JSON.stringify\<close> uses an array
  as the list of the property names that may be written, at every depth. So the text of
  the genesis block holds nothing of its header, the text of Alice's transfer of 100.00
  to Bob holds nothing of the instruction, and the transfer of 99999 to another account
  has the same text: a signature of the one is a signature of the other.
\<close>

theorem canonicalJsonStringify_drops_nested_members:
  "canonicalJsonStringify block_for_signing = Inr block_text \<and>
   canonicalJsonStringify (body_json (body transfer_tx)) = Inr transfer_body_text \<and>
   canonicalJsonStringify (body_json (body forged_tx)) = Inr transfer_body_text \<and>
   body_json (body forged_tx) \<noteq> body_json (body transfer_tx)"
proof (intro conjI)
  have pl: "property_list [''header'', ''transactions'', ''proposer_id''] =
      [''header'', ''proposer_id'', ''transactions'']"
    by (simp add: property_list_def)
  show "canonicalJsonStringify block_for_signing = Inr block_text"
    by (simp add: canonicalJsonStringify_def block_for_signing_def object_keys_def pl
        List.map_filter_simps block_text_def quote_def escape_def)
  have t: "canonicalJsonStringify (body_json (body (example_tx ''alice@root'' is))) =
      Inr transfer_body_text" if "length is = 1" for "is"
    using that
    by (simp add: canonicalJsonStringify_body_json canonical_value_body_json example_tx_def
        transfer_body_text_def quote_def escape_def toString_eval)
  show "canonicalJsonStringify (body_json (body transfer_tx)) = Inr transfer_body_text"
    unfolding transfer_tx_def by (rule t) simp
  show "canonicalJsonStringify (body_json (body forged_tx)) = Inr transfer_body_text"
    unfolding forged_tx_def by (rule t) simp
  show "body_json (body forged_tx) \<noteq> body_json (body transfer_tx)"
    by (simp add: body_json_def forged_tx_def transfer_tx_def example_tx_def)
qed

end
